theory Spec2Isabelle
  imports Main
begin

section \<open>Python strings\<close>

text \<open>
  A Python \<open>str\<close> is modelled as a \<open>string\<close> whose characters are the code points
  U+0000 .. U+00FF.  On that range \<open>str.lower\<close> maps A-Z and the Latin-1 capitals
  (U+00C0 .. U+00DE without U+00D7) to the letter 32 places further, and
  \<open>str.isspace\<close> holds for TAB .. CR, FS .. US, SPACE, U+0085 and U+00A0.
\<close>

definition lower_char :: "char \<Rightarrow> char" where
  "lower_char c =
     (let n = (of_char c :: nat) in
      if (65 \<le> n \<and> n \<le> 90) \<or> (192 \<le> n \<and> n \<le> 214) \<or> (216 \<le> n \<and> n \<le> 222)
      then char_of (n + 32) else c)"

definition lower :: "string \<Rightarrow> string" where
  "lower s = map lower_char s"

definition startswith :: "string \<Rightarrow> string \<Rightarrow> bool" where
  "startswith s p = (take (length p) s = p)"

definition isspace :: "char \<Rightarrow> bool" where
  "isspace c =
     (let n = (of_char c :: nat) in
      (9 \<le> n \<and> n \<le> 13) \<or> (28 \<le> n \<and> n \<le> 32) \<or> n = 133 \<or> n = 160)"

definition strip :: "string \<Rightarrow> string" where
  "strip s = rev (dropWhile isspace (rev (dropWhile isspace s)))"

text \<open>\<open>str(n)\<close> for a Python int: decimal digits, a leading minus sign when negative.\<close>

definition digit_char :: "nat \<Rightarrow> char" where
  "digit_char d = char_of (48 + d)"

function str_nat :: "nat \<Rightarrow> string" where
  "str_nat n = (if n < 10 then [digit_char n] else str_nat (n div 10) @ [digit_char (n mod 10)])"
  by pat_completeness auto
termination
  by (relation "measure (\<lambda>n. n)") auto

declare str_nat.simps [simp del]

definition str_int :: "int \<Rightarrow> string" where
  "str_int i = (if i < 0 then CHR ''-'' # str_nat (nat (- i)) else str_nat (nat i))"

section \<open>Configuration\<close>

text \<open>
  The fields of \<open>Config\<close> that the handlers read.  \<open>OPENAI_API_KEY\<close> is
  \<open>os.getenv\<close>'s result: \<open>None\<close> when the variable is unset.
\<close>

record config =
  MAIN_GUILD_ID :: int
  SUPPORT_GUILD_ID :: int
  STAFF_ROLE_ID :: int
  TICKET_CATEGORY_ID :: int
  OPENAI_API_KEY :: "string option"

section \<open>The database\<close>

text \<open>
  One record per row of the two tables, the fields in the order of the columns, so the
  source's \<open>row[1]\<close> is \<open>ticket_id\<close>, \<open>row[2]\<close> is \<open>user_id\<close>,
  \<open>row[4]\<close> is \<open>status\<close>, \<open>row[6]\<close> is \<open>closed_at\<close> and \<open>row[7]\<close> is
  \<open>support_channel_id\<close>.  The rows of a table are listed in rowid order, the order in
  which \<open>fetchone\<close> finds them.  \<open>CURRENT_TIMESTAMP\<close> and \<open>datetime.now()\<close> are the
  clock reading \<open>now\<close> (seconds) handed to each operation.
\<close>

record ticket =
  row_id :: nat
  ticket_id :: string
  user_id :: int
  username :: string
  status :: string
  created_at :: int
  closed_at :: "int option"
  support_channel_id :: int
  category :: string

record ticket_message =
  msg_row_id :: nat
  msg_ticket_id :: string
  author_id :: int
  author_name :: string
  message_content :: string
  timestamp :: int

record database =
  tickets :: "ticket list"
  ticket_messages :: "ticket_message list"

definition init_database :: database where
  "init_database = \<lparr>tickets = [], ticket_messages = []\<rparr>"

text \<open>
  \<open>Database.create_ticket\<close>: the INSERT raises \<open>sqlite3.IntegrityError\<close> when the
  \<open>UNIQUE\<close> column \<open>ticket_id\<close> already holds the value; the method then returns
  \<open>False\<close> and the table is unchanged.
\<close>

definition create_ticket ::
  "database \<Rightarrow> int \<Rightarrow> string \<Rightarrow> int \<Rightarrow> string \<Rightarrow> int \<Rightarrow> string \<Rightarrow> bool \<times> database" where
  "create_ticket db now tid uid uname chan cat =
     (if tid \<in> set (map ticket_id (tickets db)) then (False, db)
      else (True, db\<lparr>tickets := tickets db @
              [\<lparr>row_id = Suc (length (tickets db)), ticket_id = tid, user_id = uid,
                username = uname, status = ''open'', created_at = now, closed_at = None,
                support_channel_id = chan, category = cat\<rparr>]\<rparr>))"

definition close_row :: "int \<Rightarrow> string \<Rightarrow> ticket \<Rightarrow> ticket" where
  "close_row now tid t =
     (if ticket_id t = tid then t\<lparr>status := ''closed'', closed_at := Some now\<rparr> else t)"

definition close_ticket :: "database \<Rightarrow> int \<Rightarrow> string \<Rightarrow> database" where
  "close_ticket db now tid = db\<lparr>tickets := map (close_row now tid) (tickets db)\<rparr>"

definition get_ticket :: "database \<Rightarrow> string \<Rightarrow> ticket option" where
  "get_ticket db tid = find (\<lambda>t. ticket_id t = tid) (tickets db)"

definition get_user_open_ticket :: "database \<Rightarrow> int \<Rightarrow> ticket option" where
  "get_user_open_ticket db uid = find (\<lambda>t. user_id t = uid \<and> status t = ''open'') (tickets db)"

definition add_message :: "database \<Rightarrow> int \<Rightarrow> string \<Rightarrow> int \<Rightarrow> string \<Rightarrow> string \<Rightarrow> database" where
  "add_message db now tid aid aname text =
     db\<lparr>ticket_messages := ticket_messages db @
          [\<lparr>msg_row_id = Suc (length (ticket_messages db)), msg_ticket_id = tid,
            author_id = aid, author_name = aname, message_content = text,
            timestamp = now\<rparr>]\<rparr>"

text \<open>The SELECT of \<open>handle_support_message\<close>, by staff channel and open status.\<close>

definition get_open_ticket_by_channel :: "database \<Rightarrow> int \<Rightarrow> ticket option" where
  "get_open_ticket_by_channel db chan =
     find (\<lambda>t. support_channel_id t = chan \<and> status t = ''open'') (tickets db)"

definition generate_ticket_id :: "int \<Rightarrow> int \<Rightarrow> string" where
  "generate_ticket_id uid now = ''ticket-'' @ str_int uid @ ''-'' @ str_int now"

section \<open>The chat platform\<close>

text \<open>
  What the handlers read of \<open>interaction.user\<close> and \<open>message.author\<close>: \<open>id\<close>,
  \<open>name\<close>, \<open>str(user)\<close>, \<open>mention\<close>, the ids of \<open>roles\<close> and \<open>bot\<close>.  Inside
  a guild the object is a \<open>discord.Member\<close> and has a list of roles; in a direct
  message it is a \<open>discord.User\<close>, which has no attribute \<open>roles\<close>: then
  \<open>u_roles\<close> is \<open>None\<close>.  Of a \<open>discord.Message\<close> they read the author, the
  content, whether the channel is a \<open>DMChannel\<close>, the guild id (\<open>None\<close> outside a
  guild), and the channel's id and name.
\<close>

record member =
  u_id :: int
  u_name :: string
  u_str :: string
  u_mention :: string
  u_roles :: "int list option"
  u_bot :: bool

record message =
  author :: member
  content :: string
  is_dm :: bool
  guild_id :: "int option"
  channel_id :: int
  channel_name :: string

datatype exc = Forbidden | HTTPException | OpenAIError | IndexError | AttributeError

text \<open>
  The texts the bot sends, one constructor per message of the source, carrying the
  values the source interpolates.  \<open>AlreadyOpen tid\<close> is
  "You already have an open ticket: tid"; \<open>OnlyStaffCanClose\<close> is "Only staff members
  can close tickets."; \<open>OnlyStaffCanView\<close> is "Only staff members can view ticket
  information."; \<open>TicketAlreadyClosed\<close> is "Ticket is already closed.";
  \<open>TicketInformation t found\<close> is the embed of \<open>ticket_info\<close> for the row \<open>t\<close>,
  \<open>found\<close> telling whether \<open>bot.get_user\<close> knew the owner.
\<close>

datatype reply =
    AlreadyOpen string
  | SupportServerNotFound
  | TicketCategoryNotFound
  | StaffRoleNotFound
  | TicketCreated string
  | TicketCreatedNoDM string
  | TicketCreationError
  | OnlyStaffCanClose
  | OnlyStaffCanView
  | TicketNotFound
  | TicketAlreadyClosed
  | TicketClosed string
  | TicketInformation ticket bool

text \<open>
  The embeds.  \<open>TicketAnnouncement tid mention user now\<close> is the opening embed of the
  staff channel (status "Open", sent with the staff role mention and a
  \<open>TicketCloseView tid\<close>); \<open>ClosedAnnouncement tid mention now\<close> replaces it (status
  "Closed", no view); \<open>MessageFrom user text now\<close> has the title "Message from user"
  and the description \<open>text\<close>; \<open>SupportResponse staff text now\<close> has the description
  \<open>text\<close> and the author \<open>staff\<close>; \<open>AIAssistant text\<close> has the description
  \<open>text\<close>; \<open>MessageReceived\<close> is the prompt with the create-ticket button;
  \<open>DMsDisabledWarning\<close> is "Could not send DM to user (DMs disabled)".
\<close>

datatype embed =
    TicketAnnouncement string string string int
  | TicketCreatedDM string
  | ClosedAnnouncement string string int
  | TicketClosedDM string
  | TicketClosedByDM string string
  | AIAssistant string
  | MessageReceived
  | MessageFrom string string int
  | SupportResponse string string int
  | DMsDisabledWarning

text \<open>
  The calls a handler makes on the platform, in the order it makes them:
  \<open>interaction.response.send_message\<close>, \<open>interaction.response.edit_message\<close>,
  \<open>create_text_channel\<close>, \<open>channel.send\<close> (by channel id), \<open>user.send\<close> (by user
  id) and \<open>message.add_reaction\<close> on the message being handled.
\<close>

datatype action =
    Respond reply
  | EditMessage embed
  | CreateTextChannel string
  | ChannelSend int embed
  | UserSend int embed
  | AddReaction

text \<open>
  The platform and the completion provider as the handlers see them: the lookups say
  whether the object exists, \<open>create_text_channel\<close> returns the new channel's id or
  raises, \<open>outcome\<close> tells for each call whether it returns (\<open>None\<close>) or raises, and
  \<open>chat_completion\<close> returns the \<open>content\<close> of each choice or raises.
\<close>

record world =
  get_guild :: "int \<Rightarrow> bool"
  get_category :: "int \<Rightarrow> bool"
  get_role :: "int \<Rightarrow> bool"
  get_channel :: "int \<Rightarrow> bool"
  get_user :: "int \<Rightarrow> bool"
  create_text_channel :: "string \<Rightarrow> exc + int"
  outcome :: "action \<Rightarrow> exc option"
  chat_completion :: "string \<Rightarrow> exc + string option list"

text \<open>
  A handler returns the database it leaves, the calls it made, and the exception that
  left it, if one did.
\<close>

type_synonym result = "database \<times> action list \<times> exc option"

definition perform :: "world \<Rightarrow> database \<Rightarrow> action list \<Rightarrow> action \<Rightarrow> result" where
  "perform w db done a = (db, done @ [a], outcome w a)"

section \<open>The AI assistant\<close>

definition NOT_CONFIGURED :: string where
  "NOT_CONFIGURED = ''AI assistance is not configured. Please contact a staff member for help.''"

definition FALLBACK :: string where
  "FALLBACK = ''I'' @ [CHR 0x27] @
     ''m having trouble accessing AI assistance right now. Please contact a staff member for help.''"

text \<open>
  The body of the \<open>try\<close>: the request, then \<open>response.choices[0].message.content.strip()\<close>,
  which raises on an empty list of choices and on a content that is \<open>None\<close>.
\<close>

definition request_completion :: "world \<Rightarrow> string \<Rightarrow> exc + string" where
  "request_completion w question =
     (case chat_completion w question of
        Inl e \<Rightarrow> Inl e
      | Inr [] \<Rightarrow> Inl IndexError
      | Inr (None # _) \<Rightarrow> Inl AttributeError
      | Inr (Some text # _) \<Rightarrow> Inr (strip text))"

text \<open>\<open>not config.OPENAI_API_KEY\<close>: the key is \<open>None\<close> or the empty string.\<close>

definition no_key :: "config \<Rightarrow> bool" where
  "no_key cfg = (case OPENAI_API_KEY cfg of None \<Rightarrow> True | Some k \<Rightarrow> k = [])"

definition get_ai_response :: "config \<Rightarrow> world \<Rightarrow> string \<Rightarrow> exc + string" where
  "get_ai_response cfg w question =
     (if no_key cfg then Inr NOT_CONFIGURED
      else case request_completion w question of
             Inl e \<Rightarrow> Inr FALLBACK
           | Inr text \<Rightarrow> Inr text)"

section \<open>Creating a ticket\<close>

text \<open>
  The inner \<open>try\<close> of \<open>handle_ticket_creation\<close>: the welcome DM, then the response;
  \<open>except discord.Forbidden\<close> answers that the DM could not be sent.
\<close>

definition notify_creator :: "world \<Rightarrow> member \<Rightarrow> string \<Rightarrow> action list \<times> exc option" where
  "notify_creator w user tid =
     (let dm = UserSend (u_id user) (TicketCreatedDM tid);
          ok = Respond (TicketCreated tid);
          nodm = Respond (TicketCreatedNoDM tid);
          (acts, e) = (case outcome w dm of
                         Some e \<Rightarrow> ([dm], Some e)
                       | None \<Rightarrow> ([dm, ok], outcome w ok))
      in if e = Some Forbidden then (acts @ [nodm], outcome w nodm) else (acts, e))"

text \<open>
  The outer \<open>try\<close> body: the three lookups with their early returns, the channel, the
  row (the result of \<open>db.create_ticket\<close> is not read), the announcement, the
  notification.  The third component is the exception that reaches
  \<open>except Exception\<close>.
\<close>

definition open_ticket_channel ::
  "config \<Rightarrow> world \<Rightarrow> int \<Rightarrow> member \<Rightarrow> string \<Rightarrow> database \<Rightarrow> result" where
  "open_ticket_channel cfg w now user tid db =
     (if \<not> get_guild w (SUPPORT_GUILD_ID cfg) then perform w db [] (Respond SupportServerNotFound)
      else if \<not> get_category w (TICKET_CATEGORY_ID cfg)
        then perform w db [] (Respond TicketCategoryNotFound)
      else if \<not> get_role w (STAFF_ROLE_ID cfg) then perform w db [] (Respond StaffRoleNotFound)
      else
        let mk = CreateTextChannel (''ticket-'' @ u_name user) in
        case create_text_channel w (''ticket-'' @ u_name user) of
          Inl e \<Rightarrow> (db, [mk], Some e)
        | Inr chan \<Rightarrow>
            let db1 = snd (create_ticket db now tid (u_id user) (u_str user) chan ''general'');
                ann = ChannelSend chan (TicketAnnouncement tid (u_mention user) (u_str user) now)
            in (case outcome w ann of
                  Some e \<Rightarrow> (db1, [mk, ann], Some e)
                | None \<Rightarrow>
                    (case notify_creator w user tid of
                       (acts, e) \<Rightarrow> (db1, [mk, ann] @ acts, e))))"

definition handle_ticket_creation :: "config \<Rightarrow> world \<Rightarrow> int \<Rightarrow> member \<Rightarrow> database \<Rightarrow> result" where
  "handle_ticket_creation cfg w now user db =
     (case get_user_open_ticket db (u_id user) of
        Some t \<Rightarrow> perform w db [] (Respond (AlreadyOpen (ticket_id t)))
      | None \<Rightarrow>
          (case open_ticket_channel cfg w now user (generate_ticket_id (u_id user) now) db of
             (db1, acts, Some e) \<Rightarrow> perform w db1 acts (Respond TicketCreationError)
           | (db1, acts, None) \<Rightarrow> (db1, acts, None)))"

section \<open>Closing a ticket\<close>

text \<open>
  \<open>[role.id for role in interaction.user.roles]\<close>: the attribute access raises
  \<open>AttributeError\<close> on a \<open>discord.User\<close>.  The slash commands are registered
  globally (\<open>bot.tree.sync()\<close> without a guild, no \<open>guild_only\<close>), so they can be
  invoked in a direct message with the bot.
\<close>

definition role_ids :: "member \<Rightarrow> exc + int list" where
  "role_ids user = (case u_roles user of None \<Rightarrow> Inl AttributeError | Some ids \<Rightarrow> Inr ids)"

text \<open>\<open>TicketCloseView.close_ticket_button\<close>; \<open>self_ticket_id\<close> is the view's field.\<close>

definition close_ticket_button ::
  "config \<Rightarrow> world \<Rightarrow> int \<Rightarrow> string \<Rightarrow> member \<Rightarrow> database \<Rightarrow> result" where
  "close_ticket_button cfg w now self_ticket_id user db =
     (case role_ids user of
        Inl e \<Rightarrow> (db, [], Some e)
      | Inr ids \<Rightarrow>
          if STAFF_ROLE_ID cfg \<notin> set ids then perform w db [] (Respond OnlyStaffCanClose)
          else
            let db1 = close_ticket db now self_ticket_id;
                edit = EditMessage (ClosedAnnouncement self_ticket_id (u_mention user) now)
            in (case outcome w edit of
                  Some e \<Rightarrow> (db1, [edit], Some e)
                | None \<Rightarrow>
                    (case get_ticket db1 self_ticket_id of
                       None \<Rightarrow> (db1, [edit], None)
                     | Some t \<Rightarrow>
                         if get_user w (user_id t) then
                           let dm = UserSend (user_id t) (TicketClosedDM self_ticket_id) in
                           (case outcome w dm of
                              Some Forbidden \<Rightarrow> (db1, [edit, dm], None)
                            | r \<Rightarrow> (db1, [edit, dm], r))
                         else (db1, [edit], None))))"

definition close_ticket_command ::
  "config \<Rightarrow> world \<Rightarrow> int \<Rightarrow> member \<Rightarrow> string \<Rightarrow> database \<Rightarrow> result" where
  "close_ticket_command cfg w now user tid db =
     (case role_ids user of
        Inl e \<Rightarrow> (db, [], Some e)
      | Inr ids \<Rightarrow>
          if STAFF_ROLE_ID cfg \<notin> set ids then perform w db [] (Respond OnlyStaffCanClose)
          else (case get_ticket db tid of
            None \<Rightarrow> perform w db [] (Respond TicketNotFound)
          | Some t \<Rightarrow>
              if status t = ''closed'' then perform w db [] (Respond TicketAlreadyClosed)
              else
                let db1 = close_ticket db now tid in
                if get_user w (user_id t) then
                  let dm = UserSend (user_id t) (TicketClosedByDM tid (u_mention user)) in
                  (case outcome w dm of
                     None \<Rightarrow> perform w db1 [dm] (Respond (TicketClosed tid))
                   | Some Forbidden \<Rightarrow> perform w db1 [dm] (Respond (TicketClosed tid))
                   | Some e \<Rightarrow> (db1, [dm], Some e))
                else perform w db1 [] (Respond (TicketClosed tid))))"

definition ticket_info :: "config \<Rightarrow> world \<Rightarrow> member \<Rightarrow> string \<Rightarrow> database \<Rightarrow> result" where
  "ticket_info cfg w user tid db =
     (case role_ids user of
        Inl e \<Rightarrow> (db, [], Some e)
      | Inr ids \<Rightarrow>
          if STAFF_ROLE_ID cfg \<notin> set ids then perform w db [] (Respond OnlyStaffCanView)
          else (case get_ticket db tid of
            None \<Rightarrow> perform w db [] (Respond TicketNotFound)
          | Some t \<Rightarrow> perform w db [] (Respond (TicketInformation t (get_user w (user_id t))))))"

section \<open>Routing messages\<close>

definition handle_dm_message :: "config \<Rightarrow> world \<Rightarrow> int \<Rightarrow> message \<Rightarrow> database \<Rightarrow> result" where
  "handle_dm_message cfg w now m db =
     (case get_user_open_ticket db (u_id (author m)) of
        None \<Rightarrow>
          if startswith (lower (content m)) ''ai:'' then
            (case get_ai_response cfg w (strip (drop 3 (content m))) of
               Inl e \<Rightarrow> (db, [], Some e)
             | Inr ai_response \<Rightarrow>
                 perform w db [] (ChannelSend (channel_id m) (AIAssistant ai_response)))
          else perform w db [] (ChannelSend (channel_id m) MessageReceived)
      | Some t \<Rightarrow>
          if get_channel w (support_channel_id t) then
            let db1 = add_message db now (ticket_id t) (u_id (author m)) (u_str (author m))
                        (content m);
                fwd = ChannelSend (support_channel_id t)
                        (MessageFrom (u_str (author m)) (content m) now)
            in (case outcome w fwd of
                  Some e \<Rightarrow> (db1, [fwd], Some e)
                | None \<Rightarrow> perform w db1 [fwd] AddReaction)
          else (db, [], None))"

definition handle_support_message :: "config \<Rightarrow> world \<Rightarrow> int \<Rightarrow> message \<Rightarrow> database \<Rightarrow> result" where
  "handle_support_message cfg w now m db =
     (if u_bot (author m) then (db, [], None)
      else if startswith (channel_name m) ''ticket-'' then
        (case get_open_ticket_by_channel db (channel_id m) of
           None \<Rightarrow> (db, [], None)
         | Some t \<Rightarrow>
             let db1 = add_message db now (ticket_id t) (u_id (author m)) (u_str (author m))
                         (content m)
             in if get_user w (user_id t) then
                  let dm = UserSend (user_id t)
                             (SupportResponse (u_str (author m)) (content m) now);
                      warn = ChannelSend (channel_id m) DMsDisabledWarning
                  in (case outcome w dm of
                        Some Forbidden \<Rightarrow> perform w db1 [dm] warn
                      | Some e \<Rightarrow> (db1, [dm], Some e)
                      | None \<Rightarrow>
                          (case outcome w AddReaction of
                             Some Forbidden \<Rightarrow> perform w db1 [dm, AddReaction] warn
                           | r \<Rightarrow> (db1, [dm, AddReaction], r)))
                else (db1, [], None))
      else (db, [], None))"

text \<open>
  \<open>on_message\<close>.  The \<open>bot.process_commands\<close> that follows finds no prefix command: the
  bot registers none.
\<close>

definition on_message :: "config \<Rightarrow> world \<Rightarrow> int \<Rightarrow> message \<Rightarrow> database \<Rightarrow> result" where
  "on_message cfg w now m db =
     (if u_bot (author m) then (db, [], None)
      else if is_dm m then handle_dm_message cfg w now m db
      else if guild_id m = Some (SUPPORT_GUILD_ID cfg) then handle_support_message cfg w now m db
      else (db, [], None))"

section \<open>Views and events\<close>

datatype view = TicketView | TicketCloseView string

text \<open>The persistent views \<open>on_ready\<close> registers with \<open>bot.add_view\<close>.\<close>

definition on_ready :: "config \<Rightarrow> world \<Rightarrow> view list" where
  "on_ready cfg w =
     (if \<not> get_guild w (MAIN_GUILD_ID cfg) then []
      else if \<not> get_guild w (SUPPORT_GUILD_ID cfg) then []
      else [TicketView, TicketCloseView []])"

text \<open>A press of a view's button runs that view's callback.\<close>

fun press :: "config \<Rightarrow> world \<Rightarrow> int \<Rightarrow> view \<Rightarrow> member \<Rightarrow> database \<Rightarrow> result" where
  "press cfg w now TicketView user db = handle_ticket_creation cfg w now user db"
| "press cfg w now (TicketCloseView tid) user db = close_ticket_button cfg w now tid user db"

text \<open>
  The events that reach the database: a button press, the commands \<open>close\<close> and
  \<open>ticket_info\<close>, and a message.  (\<open>setup\<close> only posts the panel.)
\<close>

datatype event =
    Press view member
  | CloseCommand member string
  | TicketInfo member string
  | OnMessage message

fun dispatch :: "config \<Rightarrow> world \<Rightarrow> int \<Rightarrow> event \<Rightarrow> database \<Rightarrow> result" where
  "dispatch cfg w now (Press v user) db = press cfg w now v user db"
| "dispatch cfg w now (CloseCommand user tid) db = close_ticket_command cfg w now user tid db"
| "dispatch cfg w now (TicketInfo user tid) db = ticket_info cfg w user tid db"
| "dispatch cfg w now (OnMessage m) db = on_message cfg w now m db"

text \<open>
  A sequential execution: the events are handled one after the other, each with the
  platform and the clock of its moment, starting from the database given.
\<close>

fun run :: "config \<Rightarrow> (world \<times> int \<times> event) list \<Rightarrow> database \<Rightarrow> database" where
  "run cfg [] db = db"
| "run cfg ((w, now, ev) # evs) db = run cfg evs (fst (dispatch cfg w now ev db))"

section \<open>Predicates of the specification\<close>

text \<open>The invoker is a guild member whose roles include the staff role.\<close>

definition holds_staff_role :: "config \<Rightarrow> member \<Rightarrow> bool" where
  "holds_staff_role cfg user =
     (case u_roles user of None \<Rightarrow> False | Some ids \<Rightarrow> STAFF_ROLE_ID cfg \<in> set ids)"

text \<open>The open tickets of a user, and the changes one handler can make to the database.\<close>

definition open_tickets_of :: "database \<Rightarrow> int \<Rightarrow> ticket list" where
  "open_tickets_of db uid = filter (\<lambda>t. user_id t = uid \<and> status t = ''open'') (tickets db)"

inductive db_step :: "database \<Rightarrow> database \<Rightarrow> bool" where
  unchanged: "db_step db db"
| closed: "db_step db (close_ticket db now tid)"
| appended: "db_step db (add_message db now tid aid aname text)"
| created: "get_user_open_ticket db uid = None \<Longrightarrow>
     db_step db (snd (create_ticket db now (generate_ticket_id uid now) uid uname chan cat))"

definition generated_ids :: "database \<Rightarrow> bool" where
  "generated_ids db =
     (\<forall>t \<in> set (tickets db). \<exists>now. ticket_id t = generate_ticket_id (user_id t) now)"

text \<open>The number a run of decimal digits denotes.\<close>

definition digits_value :: "string \<Rightarrow> nat" where
  "digits_value s = foldl (\<lambda>a c. 10 * a + (of_char c - 48)) 0 s"

text \<open>What \<open>strip\<close> promises: the middle of the string, between two runs of whitespace.\<close>

definition stripped_of :: "string \<Rightarrow> string \<Rightarrow> bool" where
  "stripped_of s r =
     (\<exists>pre post. s = pre @ r @ post \<and> list_all isspace pre \<and> list_all isspace post \<and>
        (r = [] \<or> (\<not> isspace (hd r) \<and> \<not> isspace (last r))))"

section \<open>Example data\<close>

text \<open>
  A configuration without an API key and one with a key; a platform on which every lookup
  and every call succeeds and whose provider echoes the question, and variants of it in
  which one lookup or call fails; Alice as a member of the main guild and as the user
  the bot meets in a direct message, the staff member Bob (who holds the staff role 3),
  the bot's own account, Alice's open ticket, and messages of the three.
\<close>

definition example_config :: config where
  "example_config = \<lparr>MAIN_GUILD_ID = 1, SUPPORT_GUILD_ID = 2, STAFF_ROLE_ID = 3,
     TICKET_CATEGORY_ID = 4, OPENAI_API_KEY = None\<rparr>"

definition example_world :: world where
  "example_world = \<lparr>get_guild = (\<lambda>_. True), get_category = (\<lambda>_. True), get_role = (\<lambda>_. True),
     get_channel = (\<lambda>_. True), get_user = (\<lambda>_. True), create_text_channel = (\<lambda>_. Inr 100),
     outcome = (\<lambda>_. None), chat_completion = (\<lambda>q. Inr [Some q])\<rparr>"

definition alice :: member where
  "alice = \<lparr>u_id = 7, u_name = ''alice'', u_str = ''alice#0001'', u_mention = ''<@7>'',
     u_roles = Some [], u_bot = False\<rparr>"

definition alice_user :: member where
  "alice_user = alice\<lparr>u_roles := None\<rparr>"

definition bob :: member where
  "bob = \<lparr>u_id = 8, u_name = ''bob'', u_str = ''bob#0002'', u_mention = ''<@8>'',
     u_roles = Some [3], u_bot = False\<rparr>"

definition ticket_bot :: member where
  "ticket_bot = \<lparr>u_id = 9, u_name = ''tickets'', u_str = ''tickets#0000'', u_mention = ''<@9>'',
     u_roles = Some [], u_bot = True\<rparr>"

definition alice_ticket :: ticket where
  "alice_ticket = \<lparr>row_id = 1, ticket_id = generate_ticket_id 7 50, user_id = 7,
     username = ''alice#0001'', status = ''open'', created_at = 50, closed_at = None,
     support_channel_id = 100, category = ''general''\<rparr>"

definition alice_dm :: "string \<Rightarrow> message" where
  "alice_dm text = \<lparr>author = alice_user, content = text, is_dm = True, guild_id = None,
     channel_id = 70, channel_name = []\<rparr>"

definition bob_reply :: "string \<Rightarrow> message" where
  "bob_reply text = \<lparr>author = bob, content = text, is_dm = False, guild_id = Some 2,
     channel_id = 100, channel_name = ''ticket-alice''\<rparr>"

definition example_config_ai :: config where
  "example_config_ai = example_config\<lparr>OPENAI_API_KEY := Some ''sk-test''\<rparr>"

definition no_guild_world :: world where
  "no_guild_world = example_world\<lparr>get_guild := (\<lambda>_. False)\<rparr>"

definition no_channel_world :: world where
  "no_channel_world = example_world\<lparr>get_channel := (\<lambda>_. False)\<rparr>"

definition no_user_world :: world where
  "no_user_world = example_world\<lparr>get_user := (\<lambda>_. False)\<rparr>"

definition failing_provider_world :: world where
  "failing_provider_world = example_world\<lparr>chat_completion := (\<lambda>_. Inl OpenAIError)\<rparr>"

definition forbidden_dm_world :: world where
  "forbidden_dm_world =
     example_world\<lparr>outcome := (\<lambda>a. case a of UserSend _ _ \<Rightarrow> Some Forbidden | _ \<Rightarrow> None)\<rparr>"

definition alice_db :: database where
  "alice_db = \<lparr>tickets = [alice_ticket], ticket_messages = []\<rparr>"

definition bot_announcement :: message where
  "bot_announcement = \<lparr>author = ticket_bot, content = ''ticket opened'', is_dm = False,
     guild_id = Some 2, channel_id = 100, channel_name = ''ticket-alice''\<rparr>"

definition failing_send_world :: world where
  "failing_send_world = example_world\<lparr>outcome := (\<lambda>_. Some HTTPException)\<rparr>"

section \<open>Ticket identifiers\<close>

lemma of_char_digit: "d < 10 \<Longrightarrow> (of_char (digit_char d) :: nat) = 48 + d"
  by (simp add: digit_char_def)

lemma digit_char_not_minus: "d < 10 \<Longrightarrow> digit_char d \<noteq> CHR ''-''"
proof
  assume d: "d < 10" and eq: "digit_char d = CHR ''-''"
  have "(of_char (digit_char d) :: nat) = 45" by (simp add: eq)
  with of_char_digit [OF d] show False by simp
qed

lemma str_nat_no_minus: "CHR ''-'' \<notin> set (str_nat n)"
proof (induction n rule: str_nat.induct)
  case (1 n)
  show ?case
  proof (cases "n < 10")
    case True
    then show ?thesis
      using digit_char_not_minus [of n] by (subst str_nat.simps) auto
  next
    case False
    have "n mod 10 < 10" by simp
    from digit_char_not_minus [OF this] "1" False show ?thesis
      by (subst str_nat.simps) auto
  qed
qed

lemma str_nat_not_Nil: "str_nat n \<noteq> []"
  by (subst str_nat.simps) simp

lemma digits_value_str_nat: "digits_value (str_nat n) = n"
proof (induction n rule: str_nat.induct)
  case (1 n)
  show ?case
  proof (cases "n < 10")
    case True
    then show ?thesis
      by (subst str_nat.simps) (simp add: digits_value_def of_char_digit)
  next
    case False
    have m: "n mod 10 < 10" by simp
    from "1" False have "digits_value (str_nat (n div 10)) = n div 10" by simp
    with False show ?thesis
      by (subst str_nat.simps) (simp add: digits_value_def of_char_digit [OF m])
  qed
qed

lemma str_nat_inj: "str_nat n = str_nat m \<Longrightarrow> n = m"
  by (metis digits_value_str_nat)

lemma separator_unique:
  "x \<notin> set xs \<Longrightarrow> x \<notin> set xs' \<Longrightarrow> xs @ x # ys = xs' @ x # ys' \<Longrightarrow> xs = xs'"
proof (induction xs arbitrary: xs')
  case Nil
  then show ?case by (cases xs') auto
next
  case (Cons a xs)
  then show ?case by (cases xs') auto
qed

lemma str_nat_sep:
  assumes "str_nat a @ CHR ''-'' # r = str_nat b @ CHR ''-'' # r'"
  shows "a = b"
proof -
  from assms have "str_nat a = str_nat b"
    by (rule separator_unique [OF str_nat_no_minus str_nat_no_minus])
  then show ?thesis by (rule str_nat_inj)
qed

lemma str_nat_not_minus_first: "str_nat a @ r \<noteq> CHR ''-'' # r'"
proof
  assume eq: "str_nat a @ r = CHR ''-'' # r'"
  obtain c cs where c: "str_nat a = c # cs"
    using str_nat_not_Nil [of a] by (cases "str_nat a") auto
  with eq have "c = CHR ''-''" by simp
  with c str_nat_no_minus [of a] show False by simp
qed

lemma str_int_sep:
  assumes "str_int u @ CHR ''-'' # r = str_int v @ CHR ''-'' # r'"
  shows "u = v"
proof (cases "u < 0")
  case un: True
  show ?thesis
  proof (cases "v < 0")
    case True
    with un assms have "nat (- u) = nat (- v)"
      by (auto simp: str_int_def dest: str_nat_sep)
    with un True show ?thesis by simp
  next
    case False
    with un assms
    have "str_nat (nat v) @ CHR ''-'' # r' = CHR ''-'' # str_nat (nat (- u)) @ CHR ''-'' # r"
      by (simp add: str_int_def)
    then show ?thesis by (simp add: str_nat_not_minus_first)
  qed
next
  case up: False
  show ?thesis
  proof (cases "v < 0")
    case True
    with up assms
    have "str_nat (nat u) @ CHR ''-'' # r = CHR ''-'' # str_nat (nat (- v)) @ CHR ''-'' # r'"
      by (simp add: str_int_def)
    then show ?thesis by (simp add: str_nat_not_minus_first)
  next
    case False
    with up assms have "nat u = nat v"
      by (auto simp: str_int_def dest: str_nat_sep)
    with up False show ?thesis by simp
  qed
qed

lemma generate_ticket_id_user: "generate_ticket_id u n = generate_ticket_id v m \<Longrightarrow> u = v"
  by (auto simp: generate_ticket_id_def dest: str_int_sep)

lemma generate_ticket_id_not_empty: "generate_ticket_id u n \<noteq> []"
  by (simp add: generate_ticket_id_def)

section \<open>What the handlers do to the database\<close>

lemma perform_fst [simp]: "fst (perform w db acts a) = db"
  by (simp add: perform_def)

lemma open_ticket_channel_unchanged:
  "\<not> get_guild w (SUPPORT_GUILD_ID cfg) \<or> \<not> get_category w (TICKET_CATEGORY_ID cfg) \<or>
   \<not> get_role w (STAFF_ROLE_ID cfg) \<or> (\<exists>e. create_text_channel w (''ticket-'' @ u_name user) = Inl e)
   \<Longrightarrow> fst (open_ticket_channel cfg w now user tid db) = db"
  by (auto simp: open_ticket_channel_def)

lemma handle_ticket_creation_fst:
  "fst (handle_ticket_creation cfg w now user db) =
     (case get_user_open_ticket db (u_id user) of
        Some t \<Rightarrow> db
      | None \<Rightarrow> fst (open_ticket_channel cfg w now user (generate_ticket_id (u_id user) now) db))"
  by (auto simp: handle_ticket_creation_def split: option.splits prod.splits)

lemma open_ticket_channel_changed:
  assumes "fst (open_ticket_channel cfg w now user tid db) \<noteq> db"
  shows "get_guild w (SUPPORT_GUILD_ID cfg) \<and> get_category w (TICKET_CATEGORY_ID cfg) \<and>
     get_role w (STAFF_ROLE_ID cfg) \<and>
     (\<exists>chan. create_text_channel w (''ticket-'' @ u_name user) = Inr chan \<and>
        fst (open_ticket_channel cfg w now user tid db) =
          snd (create_ticket db now tid (u_id user) (u_str user) chan ''general''))"
  using assms
  by (auto simp: open_ticket_channel_def Let_def split: if_splits sum.splits option.splits prod.splits)

lemma open_ticket_channel_fst:
  "fst (open_ticket_channel cfg w now user tid db) = db \<or>
   (\<exists>chan. fst (open_ticket_channel cfg w now user tid db) =
      snd (create_ticket db now tid (u_id user) (u_str user) chan ''general''))"
  using open_ticket_channel_changed [of cfg w now user tid db] by blast

lemma handle_ticket_creation_step: "db_step db (fst (handle_ticket_creation cfg w now user db))"
proof (cases "get_user_open_ticket db (u_id user)")
  case None
  from open_ticket_channel_fst [of cfg w now user "generate_ticket_id (u_id user) now" db]
  show ?thesis
  proof
    assume "fst (open_ticket_channel cfg w now user (generate_ticket_id (u_id user) now) db) = db"
    with None show ?thesis by (simp add: handle_ticket_creation_fst db_step.unchanged)
  next
    assume "\<exists>chan. fst (open_ticket_channel cfg w now user (generate_ticket_id (u_id user) now) db) =
      snd (create_ticket db now (generate_ticket_id (u_id user) now) (u_id user) (u_str user) chan
        ''general'')"
    with None show ?thesis
      by (auto simp: handle_ticket_creation_fst intro: db_step.created)
  qed
next
  case (Some t)
  then show ?thesis by (simp add: handle_ticket_creation_fst db_step.unchanged)
qed

lemma close_ticket_button_fst:
  "fst (close_ticket_button cfg w now tid user db) =
     (if holds_staff_role cfg user then close_ticket db now tid else db)"
  by (simp add: close_ticket_button_def role_ids_def holds_staff_role_def Let_def
      split: option.splits exc.splits)

lemma close_ticket_command_fst:
  "fst (close_ticket_command cfg w now user tid db) =
     (case get_ticket db tid of
        None \<Rightarrow> db
      | Some t \<Rightarrow>
          if holds_staff_role cfg user \<and> status t \<noteq> ''closed'' then close_ticket db now tid
          else db)"
  by (simp add: close_ticket_command_def role_ids_def holds_staff_role_def Let_def
      split: option.splits exc.splits)

lemma ticket_info_fst: "fst (ticket_info cfg w user tid db) = db"
  by (simp add: ticket_info_def role_ids_def split: option.splits)

lemma handle_dm_message_fst:
  "fst (handle_dm_message cfg w now m db) =
     (case get_user_open_ticket db (u_id (author m)) of
        None \<Rightarrow> db
      | Some t \<Rightarrow>
          if get_channel w (support_channel_id t)
          then add_message db now (ticket_id t) (u_id (author m)) (u_str (author m)) (content m)
          else db)"
  by (simp add: handle_dm_message_def Let_def split: option.splits sum.splits)

lemma handle_support_message_fst:
  "fst (handle_support_message cfg w now m db) =
     (if u_bot (author m) \<or> \<not> startswith (channel_name m) ''ticket-'' then db
      else case get_open_ticket_by_channel db (channel_id m) of
        None \<Rightarrow> db
      | Some t \<Rightarrow> add_message db now (ticket_id t) (u_id (author m)) (u_str (author m)) (content m))"
  by (simp add: handle_support_message_def Let_def split: option.splits exc.splits)

lemma on_message_step: "db_step db (fst (on_message cfg w now m db))"
  by (auto simp: on_message_def handle_dm_message_fst handle_support_message_fst
      intro: db_step.intros split: option.splits)

lemma dispatch_step: "db_step db (fst (dispatch cfg w now ev db))"
proof (cases ev)
  case (Press v user)
  then show ?thesis
    by (cases v) (auto simp: handle_ticket_creation_step close_ticket_button_fst intro: db_step.intros)
next
  case (CloseCommand user tid)
  then show ?thesis
    by (auto simp: close_ticket_command_fst intro: db_step.intros split: option.splits)
next
  case (TicketInfo user tid)
  then show ?thesis by (simp add: ticket_info_fst db_step.unchanged)
next
  case (OnMessage m)
  then show ?thesis by (simp add: on_message_step)
qed

lemma run_append: "run cfg (evs @ evs') db = run cfg evs' (run cfg evs db)"
  by (induction evs arbitrary: db) auto

lemma run_invariant:
  assumes init: "P db"
    and step: "\<And>d d'. P d \<Longrightarrow> db_step d d' \<Longrightarrow> P d'"
  shows "P (run cfg evs db)"
proof (induction evs rule: rev_induct)
  case Nil
  show ?case by (simp add: init)
next
  case (snoc e evs)
  obtain w now ev where e: "e = (w, now, ev)" by (cases e) auto
  have "run cfg (evs @ [e]) db = fst (dispatch cfg w now ev (run cfg evs db))"
    by (simp add: run_append e)
  with snoc dispatch_step [of "run cfg evs db" cfg w now ev] show ?case
    by (simp add: step)
qed

lemma close_row_open: "status (close_row now tid t) = ''open'' \<Longrightarrow> status t = ''open''"
  by (auto simp: close_row_def split: if_splits)

lemma close_row_user [simp]: "user_id (close_row now tid t) = user_id t"
  by (simp add: close_row_def)

lemma close_row_ticket_id [simp]: "ticket_id (close_row now tid t) = ticket_id t"
  by (simp add: close_row_def)

lemma filter_map_le:
  "(\<And>x. P (f x) \<Longrightarrow> P x) \<Longrightarrow> length (filter P (map f xs)) \<le> length (filter P xs)"
  by (induction xs) auto

lemma open_tickets_close: "length (open_tickets_of (close_ticket db now tid) u) \<le> length (open_tickets_of db u)"
proof -
  have "length (filter (\<lambda>t. user_id t = u \<and> status t = ''open'') (map (close_row now tid) (tickets db)))
      \<le> length (filter (\<lambda>t. user_id t = u \<and> status t = ''open'') (tickets db))"
    by (rule filter_map_le) (auto intro: close_row_open)
  then show ?thesis by (simp add: open_tickets_of_def close_ticket_def)
qed

lemma find_None_filter: "find P xs = None \<Longrightarrow> filter P xs = []"
  by (induction xs) (auto split: if_splits)

lemma open_tickets_create:
  assumes "get_user_open_ticket db uid = None"
    and "length (open_tickets_of db u) \<le> 1"
  shows "length (open_tickets_of (snd (create_ticket db now tid uid uname chan cat)) u) \<le> 1"
proof (cases "u = uid")
  case True
  from assms(1) have "open_tickets_of db uid = []"
    unfolding get_user_open_ticket_def open_tickets_of_def by (rule find_None_filter)
  with True show ?thesis
    by (simp add: create_ticket_def open_tickets_of_def)
next
  case False
  with assms(2) show ?thesis
    by (simp add: create_ticket_def open_tickets_of_def)
qed

lemma open_tickets_step:
  assumes "db_step db db'" and "length (open_tickets_of db u) \<le> 1"
  shows "length (open_tickets_of db' u) \<le> 1"
  using assms
proof (cases rule: db_step.cases)
  case unchanged
  with assms show ?thesis by simp
next
  case (closed now tid)
  with assms open_tickets_close [of db now tid u] show ?thesis by simp
next
  case (appended now tid aid aname body)
  with assms show ?thesis by (simp add: add_message_def open_tickets_of_def)
next
  case (created uid now uname chan cat)
  with assms open_tickets_create show ?thesis by simp
qed

lemma one_open_ticket_run: "length (open_tickets_of (run cfg evs init_database) u) \<le> 1"
proof (rule run_invariant)
  show "length (open_tickets_of init_database u) \<le> 1"
    by (simp add: open_tickets_of_def init_database_def)
next
  fix d d'
  assume "length (open_tickets_of d u) \<le> 1" "db_step d d'"
  then show "length (open_tickets_of d' u) \<le> 1" by (rule open_tickets_step [rotated])
qed

lemma generated_ids_step:
  assumes "db_step db db'" and "generated_ids db"
  shows "generated_ids db'"
  using assms
proof (cases rule: db_step.cases)
  case unchanged
  with assms show ?thesis by simp
next
  case (closed now tid)
  with assms show ?thesis
    by (auto simp: generated_ids_def close_ticket_def)
next
  case (appended now tid aid aname body)
  with assms show ?thesis by (simp add: generated_ids_def add_message_def)
next
  case (created uid now uname chan cat)
  with assms show ?thesis
    by (auto simp: generated_ids_def create_ticket_def)
qed

lemma generated_ids_run: "generated_ids (run cfg evs init_database)"
proof (rule run_invariant)
  show "generated_ids init_database" by (simp add: generated_ids_def init_database_def)
qed (simp add: generated_ids_step)

lemma fresh_ticket_id:
  assumes "generated_ids db" and "\<forall>t \<in> set (tickets db). user_id t \<noteq> uid"
  shows "generate_ticket_id uid now \<notin> set (map ticket_id (tickets db))"
proof
  assume "generate_ticket_id uid now \<in> set (map ticket_id (tickets db))"
  then obtain t where t: "t \<in> set (tickets db)" "ticket_id t = generate_ticket_id uid now"
    by auto
  from assms(1) t(1) obtain n where "ticket_id t = generate_ticket_id (user_id t) n"
    by (auto simp: generated_ids_def)
  with t(2) have "user_id t = uid" by (auto dest: generate_ticket_id_user)
  with assms(2) t(1) show False by simp
qed

lemma open_ticket_channel_created:
  assumes "get_guild w (SUPPORT_GUILD_ID cfg)" "get_category w (TICKET_CATEGORY_ID cfg)"
    "get_role w (STAFF_ROLE_ID cfg)" "create_text_channel w (''ticket-'' @ u_name user) = Inr chan"
  shows "fst (open_ticket_channel cfg w now user tid db) =
     snd (create_ticket db now tid (u_id user) (u_str user) chan ''general'')"
  using assms
  by (simp add: open_ticket_channel_def Let_def split: option.splits prod.splits)

lemma find_no_match: "\<forall>x \<in> set xs. \<not> P x \<Longrightarrow> find P (xs @ ys) = find P ys"
  by (induction xs) auto

lemma already_open_reply:
  "get_user_open_ticket db (u_id user) = Some t \<Longrightarrow>
   handle_ticket_creation cfg w now user db =
     (db, [Respond (AlreadyOpen (ticket_id t))], outcome w (Respond (AlreadyOpen (ticket_id t))))"
  by (simp add: handle_ticket_creation_def perform_def)

lemma first_ticket_created:
  assumes gen: "generated_ids db"
    and none: "\<forall>t \<in> set (tickets db). user_id t \<noteq> u_id user"
    and ok: "get_guild w (SUPPORT_GUILD_ID cfg)" "get_category w (TICKET_CATEGORY_ID cfg)"
      "get_role w (STAFF_ROLE_ID cfg)" "create_text_channel w (''ticket-'' @ u_name user) = Inr chan"
  shows "fst (handle_ticket_creation cfg w now user db) =
     db\<lparr>tickets := tickets db @
        [\<lparr>row_id = Suc (length (tickets db)), ticket_id = generate_ticket_id (u_id user) now,
          user_id = u_id user, username = u_str user, status = ''open'', created_at = now,
          closed_at = None, support_channel_id = chan, category = ''general''\<rparr>]\<rparr>"
proof -
  from none have "find (\<lambda>t. user_id t = u_id user \<and> status t = ''open'') (tickets db @ []) = find (\<lambda>t. user_id t = u_id user \<and> status t = ''open'') []"
    by (intro find_no_match) auto
  then have no_open: "get_user_open_ticket db (u_id user) = None"
    by (simp add: get_user_open_ticket_def)
  from fresh_ticket_id [OF gen none]
  have fresh: "generate_ticket_id (u_id user) now \<notin> set (map ticket_id (tickets db))" .
  from no_open have "fst (handle_ticket_creation cfg w now user db) =
      fst (open_ticket_channel cfg w now user (generate_ticket_id (u_id user) now) db)"
    by (simp add: handle_ticket_creation_fst)
  also have "\<dots> = snd (create_ticket db now (generate_ticket_id (u_id user) now) (u_id user)
      (u_str user) chan ''general'')"
    by (rule open_ticket_channel_created [OF ok])
  also from fresh have "\<dots> = db\<lparr>tickets := tickets db @
        [\<lparr>row_id = Suc (length (tickets db)), ticket_id = generate_ticket_id (u_id user) now,
          user_id = u_id user, username = u_str user, status = ''open'', created_at = now,
          closed_at = None, support_channel_id = chan, category = ''general''\<rparr>]\<rparr>"
    by (simp add: create_ticket_def)
  finally show ?thesis .
qed

lemma find_new_row:
  assumes "\<forall>t \<in> set (tickets db). user_id t \<noteq> uid" "user_id r = uid" "status r = ''open''"
  shows "get_user_open_ticket (db\<lparr>tickets := tickets db @ [r]\<rparr>) uid = Some r"
proof -
  from assms(1) have "find (\<lambda>t. user_id t = uid \<and> status t = ''open'') (tickets db @ [r]) = find (\<lambda>t. user_id t = uid \<and> status t = ''open'') [r]"
    by (intro find_no_match) auto
  with assms(2,3) show ?thesis by (simp add: get_user_open_ticket_def)
qed

lemma alice_open:
  "get_user_open_ticket \<lparr>tickets = [alice_ticket], ticket_messages = []\<rparr> (u_id alice) = Some alice_ticket"
  by (simp add: get_user_open_ticket_def alice_ticket_def alice_def)


section \<open>Prefix and whitespace\<close>

lemma of_char_lower_char:
  "(of_char (lower_char c) :: nat) =
     (let n = (of_char c :: nat) in
      if (65 \<le> n \<and> n \<le> 90) \<or> (192 \<le> n \<and> n \<le> 214) \<or> (216 \<le> n \<and> n \<le> 222)
      then n + 32 else n)"
  by (auto simp: lower_char_def Let_def)

lemma char_of_letters:
  "char_of (97 :: nat) = CHR ''a''" "char_of (65 :: nat) = CHR ''A''"
  "char_of (105 :: nat) = CHR ''i''" "char_of (73 :: nat) = CHR ''I''"
  "char_of (58 :: nat) = CHR '':''"
  by (simp_all add: char_of_eq_iff)

lemma lower_char_a: "lower_char c = CHR ''a'' \<longleftrightarrow> c = CHR ''a'' \<or> c = CHR ''A''"
proof
  assume "lower_char c = CHR ''a''"
  then have "(of_char (lower_char c) :: nat) = 97" by simp
  then have "(of_char c :: nat) = 97 \<or> (of_char c :: nat) = 65"
    by (auto simp: of_char_lower_char Let_def split: if_splits)
  then have "c = char_of (97 :: nat) \<or> c = char_of (65 :: nat)"
    by (metis char_of_char)
  then show "c = CHR ''a'' \<or> c = CHR ''A''" by (simp only: char_of_letters)
next
  assume "c = CHR ''a'' \<or> c = CHR ''A''"
  then show "lower_char c = CHR ''a''" by (auto simp: lower_char_def char_of_eq_iff)
qed

lemma lower_char_i: "lower_char c = CHR ''i'' \<longleftrightarrow> c = CHR ''i'' \<or> c = CHR ''I''"
proof
  assume "lower_char c = CHR ''i''"
  then have "(of_char (lower_char c) :: nat) = 105" by simp
  then have "(of_char c :: nat) = 105 \<or> (of_char c :: nat) = 73"
    by (auto simp: of_char_lower_char Let_def split: if_splits)
  then have "c = char_of (105 :: nat) \<or> c = char_of (73 :: nat)"
    by (metis char_of_char)
  then show "c = CHR ''i'' \<or> c = CHR ''I''" by (simp only: char_of_letters)
next
  assume "c = CHR ''i'' \<or> c = CHR ''I''"
  then show "lower_char c = CHR ''i''" by (auto simp: lower_char_def char_of_eq_iff)
qed

lemma lower_char_colon: "lower_char c = CHR '':'' \<longleftrightarrow> c = CHR '':''"
proof
  assume "lower_char c = CHR '':''"
  then have "(of_char (lower_char c) :: nat) = 58" by simp
  then have "(of_char c :: nat) = 58"
    by (auto simp: of_char_lower_char Let_def split: if_splits)
  then have "c = char_of (58 :: nat)"
    by (metis char_of_char)
  then show "c = CHR '':''" by (simp only: char_of_letters)
next
  assume "c = CHR '':''"
  then show "lower_char c = CHR '':''" by (auto simp: lower_char_def)
qed

lemma startswith_ai:
  "startswith (lower s) ''ai:'' \<longleftrightarrow>
     (\<exists>a i rest. s = a # i # CHR '':'' # rest \<and> (a = CHR ''a'' \<or> a = CHR ''A'') \<and>
        (i = CHR ''i'' \<or> i = CHR ''I''))"
proof (cases s)
  case Nil
  then show ?thesis by (simp add: startswith_def lower_def)
next
  case s1: (Cons a s')
  show ?thesis
  proof (cases s')
    case Nil
    with s1 show ?thesis by (simp add: startswith_def lower_def)
  next
    case s2: (Cons i s'')
    show ?thesis
    proof (cases s'')
      case Nil
      with s1 s2 show ?thesis by (simp add: startswith_def lower_def)
    next
      case (Cons c rest)
      with s1 s2 show ?thesis
        by (auto simp: startswith_def lower_def lower_char_a lower_char_i lower_char_colon)
    qed
  qed
qed

lemma strip_stripped: "stripped_of s (strip s)"
proof -
  define pre where "pre = takeWhile isspace s"
  define s' where "s' = dropWhile isspace s"
  define r where "r = rev (dropWhile isspace (rev s'))"
  define post where "post = rev (takeWhile isspace (rev s'))"
  have s: "s = pre @ s'" by (simp add: pre_def s'_def)
  have "rev (rev s') = rev (takeWhile isspace (rev s') @ dropWhile isspace (rev s'))"
    by (simp only: takeWhile_dropWhile_id)
  then have s': "s' = r @ post" by (simp only: rev_rev_ident rev_append r_def post_def)
  have pre: "list_all isspace pre"
    by (auto simp: pre_def list_all_iff dest: set_takeWhileD)
  have post: "list_all isspace post"
    by (auto simp: post_def list_all_iff dest: set_takeWhileD)
  have ends: "\<not> isspace (hd r) \<and> \<not> isspace (last r)" if ne: "r \<noteq> []"
  proof
    from ne have d: "dropWhile isspace (rev s') \<noteq> []" by (simp add: r_def)
    then have "\<not> isspace (hd (dropWhile isspace (rev s')))" by (rule hd_dropWhile)
    with d show "\<not> isspace (last r)" by (simp add: r_def last_rev)
    from ne s' have h: "hd s' = hd r" by simp
    from ne s' have "s' \<noteq> []" by simp
    then have "dropWhile isspace s \<noteq> []" by (simp add: s'_def)
    then have "\<not> isspace (hd (dropWhile isspace s))" by (rule hd_dropWhile)
    with h show "\<not> isspace (hd r)" by (simp add: s'_def)
  qed
  have "strip s = r" by (simp add: strip_def r_def s'_def)
  moreover from s s' have "s = pre @ r @ post" by simp
  ultimately show ?thesis
    using pre post ends unfolding stripped_of_def by blast
qed

section \<open>Facts about the examples and the assistant\<close>

lemma get_ai_response_Inr: "\<exists>text. get_ai_response cfg w question = Inr text"
  by (simp add: get_ai_response_def split: sum.splits)

lemma alice_no_ticket: "get_user_open_ticket init_database (u_id (author (alice_dm text))) = None"
  by (simp add: get_user_open_ticket_def init_database_def)

lemma alice_db_open: "get_user_open_ticket alice_db (u_id (author (alice_dm text))) = Some alice_ticket"
  by (simp add: get_user_open_ticket_def alice_db_def alice_ticket_def alice_dm_def alice_user_def alice_def)

lemma example_creation:
  "handle_ticket_creation example_config example_world 50 alice init_database =
     (\<lparr>tickets = [alice_ticket], ticket_messages = []\<rparr>,
      [CreateTextChannel ''ticket-alice'',
       ChannelSend 100 (TicketAnnouncement (generate_ticket_id 7 50) ''<@7>'' ''alice#0001'' 50),
       UserSend 7 (TicketCreatedDM (generate_ticket_id 7 50)),
       Respond (TicketCreated (generate_ticket_id 7 50))], None)"
  by (simp add: handle_ticket_creation_def open_ticket_channel_def notify_creator_def
      get_user_open_ticket_def create_ticket_def init_database_def example_config_def
      example_world_def alice_def alice_ticket_def)

lemma example_run:
  "run example_config [(example_world, 50, Press TicketView alice)] init_database = alice_db"
  by (simp add: example_creation alice_db_def)

lemma alice_db_channel:
  "get_open_ticket_by_channel alice_db (channel_id (bob_reply body)) = Some alice_ticket"
  by (simp add: get_open_ticket_by_channel_def alice_db_def alice_ticket_def bob_reply_def)

lemma bob_reply_routed:
  "\<not> u_bot (author (bob_reply body))" "\<not> is_dm (bob_reply body)"
  "guild_id (bob_reply body) = Some (SUPPORT_GUILD_ID example_config)"
  "startswith (channel_name (bob_reply body)) ''ticket-''"
  by (simp_all add: bob_reply_def bob_def example_config_def startswith_def)

section \<open>The claims\<close>

text \<open>
  C3.  When the lookup of the support guild, of the ticket category or of the staff role
  fails, or \<open>create_text_channel\<close> raises, \<open>handle_ticket_creation\<close> leaves the
  database as it was; and whenever it changes the database, the three lookups succeeded
  and \<open>create_text_channel\<close> returned a channel.
\<close>

theorem no_channel_no_ticket:
  "((\<not> get_guild w (SUPPORT_GUILD_ID cfg) \<or> \<not> get_category w (TICKET_CATEGORY_ID cfg) \<or>
     \<not> get_role w (STAFF_ROLE_ID cfg) \<or>
     (\<exists>e. create_text_channel w (''ticket-'' @ u_name user) = Inl e))
    \<longrightarrow> fst (handle_ticket_creation cfg w now user db) = db) \<and>
   (fst (handle_ticket_creation cfg w now user db) \<noteq> db \<longrightarrow>
      get_guild w (SUPPORT_GUILD_ID cfg) \<and> get_category w (TICKET_CATEGORY_ID cfg) \<and>
      get_role w (STAFF_ROLE_ID cfg) \<and>
      (\<exists>chan. create_text_channel w (''ticket-'' @ u_name user) = Inr chan))"
proof (intro conjI impI)
  assume "\<not> get_guild w (SUPPORT_GUILD_ID cfg) \<or> \<not> get_category w (TICKET_CATEGORY_ID cfg) \<or>
     \<not> get_role w (STAFF_ROLE_ID cfg) \<or>
     (\<exists>e. create_text_channel w (''ticket-'' @ u_name user) = Inl e)"
  then show "fst (handle_ticket_creation cfg w now user db) = db"
    by (simp add: handle_ticket_creation_fst open_ticket_channel_unchanged split: option.splits)
next
  assume ch: "fst (handle_ticket_creation cfg w now user db) \<noteq> db"
  then have "fst (open_ticket_channel cfg w now user (generate_ticket_id (u_id user) now) db) \<noteq> db"
    by (simp add: handle_ticket_creation_fst split: option.splits)
  from open_ticket_channel_changed [OF this]
  show "get_guild w (SUPPORT_GUILD_ID cfg)" "get_category w (TICKET_CATEGORY_ID cfg)"
    "get_role w (STAFF_ROLE_ID cfg)"
    "\<exists>chan. create_text_channel w (''ticket-'' @ u_name user) = Inr chan"
    by auto
qed

theorem no_channel_no_ticket_witness:
  "\<not> get_guild no_guild_world (SUPPORT_GUILD_ID example_config) \<and>
   fst (handle_ticket_creation example_config no_guild_world 50 alice init_database) = init_database \<and>
   fst (handle_ticket_creation example_config example_world 50 alice init_database) \<noteq> init_database \<and>
   (\<exists>chan. create_text_channel example_world (''ticket-'' @ u_name alice) = Inr chan)"
proof -
  have g: "\<not> get_guild no_guild_world (SUPPORT_GUILD_ID example_config)"
    by (simp add: no_guild_world_def example_world_def)
  have c: "fst (handle_ticket_creation example_config example_world 50 alice init_database)
      \<noteq> init_database"
    using example_creation by (simp add: init_database_def)
  from g c no_channel_no_ticket [of no_guild_world example_config alice 50 init_database]
    no_channel_no_ticket [of example_world example_config alice 50 init_database]
  show ?thesis by blast
qed

text \<open>
  For an invoker who is a guild member without the staff role, the close button, the
  \<open>close\<close> command and \<open>ticket_info\<close> give the permission reply and nothing else;
  and whoever the invoker is, a change of the database means that the invoker is a
  member who holds the staff role.
\<close>

lemma permission_reply_for_members:
  assumes "u_roles user = Some ids" and "STAFF_ROLE_ID cfg \<notin> set ids"
  shows "close_ticket_button cfg w now vid user db =
       (db, [Respond OnlyStaffCanClose], outcome w (Respond OnlyStaffCanClose))"
    and "close_ticket_command cfg w now user tid db =
       (db, [Respond OnlyStaffCanClose], outcome w (Respond OnlyStaffCanClose))"
    and "ticket_info cfg w user tid db =
       (db, [Respond OnlyStaffCanView], outcome w (Respond OnlyStaffCanView))"
  using assms
  by (simp_all add: close_ticket_button_def close_ticket_command_def ticket_info_def
      role_ids_def perform_def)

lemma change_needs_staff_role:
  assumes "fst (close_ticket_button cfg w now vid user db) \<noteq> db \<or>
    fst (close_ticket_command cfg w now user tid db) \<noteq> db"
  shows "holds_staff_role cfg user"
  using assms
  by (auto simp: close_ticket_button_fst close_ticket_command_fst
      split: option.splits if_splits)

text \<open>
  C6.  The permission reply is missed when a command is invoked in a direct message
  with the bot.  There \<open>interaction.user\<close> is a \<open>discord.User\<close>, reading its roles
  raises \<open>AttributeError\<close>, and \<open>close\<close> and \<open>ticket_info\<close> end without any reply;
  the database is left as it was.
\<close>

theorem command_in_dm_raises:
  "u_roles alice_user = None \<and>
   close_ticket_command example_config example_world 60 alice_user (generate_ticket_id 7 50)
       alice_db = (alice_db, [], Some AttributeError) \<and>
   ticket_info example_config example_world alice_user (generate_ticket_id 7 50) alice_db =
     (alice_db, [], Some AttributeError)"
  by (simp add: close_ticket_command_def ticket_info_def role_ids_def alice_user_def)

text \<open>
  C7.  \<open>get_ai_response\<close> always returns a string and never raises: the fixed "not
  configured" text when there is no API key, and the fixed fallback text when the
  request raises or the response cannot be read.
\<close>

theorem get_ai_response_returns:
  "(\<exists>text. get_ai_response cfg w question = Inr text) \<and>
   (no_key cfg \<longrightarrow> get_ai_response cfg w question = Inr NOT_CONFIGURED) \<and>
   (\<not> no_key cfg \<longrightarrow> (\<exists>e. chat_completion w question = Inl e) \<longrightarrow>
        get_ai_response cfg w question = Inr FALLBACK) \<and>
   (\<not> no_key cfg \<longrightarrow> (\<exists>e. request_completion w question = Inl e) \<longrightarrow>
        get_ai_response cfg w question = Inr FALLBACK)"
  by (auto simp: get_ai_response_def request_completion_def
      split: sum.splits list.splits option.splits)

theorem get_ai_response_returns_witness:
  "no_key example_config \<and>
   get_ai_response example_config example_world ''how do I reset my password?'' =
     Inr ''AI assistance is not configured. Please contact a staff member for help.'' \<and>
   \<not> no_key example_config_ai \<and>
   chat_completion failing_provider_world ''how do I reset my password?'' = Inl OpenAIError \<and>
   request_completion failing_provider_world ''how do I reset my password?'' = Inl OpenAIError \<and>
   get_ai_response example_config_ai failing_provider_world ''how do I reset my password?'' =
     Inr FALLBACK"
proof -
  have k: "no_key example_config" by (simp add: no_key_def example_config_def)
  have k': "\<not> no_key example_config_ai"
    by (simp add: no_key_def example_config_ai_def example_config_def)
  have c: "chat_completion failing_provider_world ''how do I reset my password?'' = Inl OpenAIError"
    by (simp add: failing_provider_world_def example_world_def)
  have r: "request_completion failing_provider_world ''how do I reset my password?'' = Inl OpenAIError"
    by (simp add: request_completion_def c)
  from k k' c r
    get_ai_response_returns [of example_config example_world "''how do I reset my password?''"]
    get_ai_response_returns [of example_config_ai failing_provider_world
      "''how do I reset my password?''"]
  show ?thesis by (simp add: NOT_CONFIGURED_def)
qed

text \<open>
  C8.  A direct message whose lowercased content starts with "ai:", from a user with
  no open ticket, leaves both tables of the database as they were, whatever the
  provider and the platform do.
\<close>

theorem ai_path_frame:
  "get_user_open_ticket db (u_id (author m)) = None \<and> startswith (lower (content m)) ''ai:'' \<longrightarrow>
     fst (handle_dm_message cfg w now m db) = db \<and>
     (is_dm m \<longrightarrow> fst (on_message cfg w now m db) = db)"
  by (auto simp: handle_dm_message_def on_message_def split: sum.splits)

theorem ai_path_frame_witness:
  "get_user_open_ticket init_database (u_id (author (alice_dm ''ai: how do I reset my password?''))) = None \<and>
   startswith (lower (content (alice_dm ''ai: how do I reset my password?''))) ''ai:'' \<and>
   is_dm (alice_dm ''ai: how do I reset my password?'') \<and>
   fst (handle_dm_message example_config example_world 60
         (alice_dm ''ai: how do I reset my password?'') init_database) = init_database \<and>
   on_message example_config example_world 60
       (alice_dm ''ai: how do I reset my password?'') init_database =
     (init_database, [ChannelSend 70 (AIAssistant NOT_CONFIGURED)], None)"
proof -
  have a: "get_user_open_ticket init_database
      (u_id (author (alice_dm ''ai: how do I reset my password?''))) = None"
    by (simp add: get_user_open_ticket_def init_database_def)
  have b: "startswith (lower (content (alice_dm ''ai: how do I reset my password?''))) ''ai:''"
    by (simp add: startswith_ai alice_dm_def)
  have c: "is_dm (alice_dm ''ai: how do I reset my password?'')"
    by (simp add: alice_dm_def)
  have d: "on_message example_config example_world 60
       (alice_dm ''ai: how do I reset my password?'') init_database =
     (init_database, [ChannelSend 70 (AIAssistant NOT_CONFIGURED)], None)"
    using a b
    by (simp add: on_message_def handle_dm_message_def get_ai_response_def no_key_def perform_def)
       (simp add: alice_dm_def alice_user_def alice_def example_config_def example_world_def)
  from a b c d
    ai_path_frame [of init_database "alice_dm ''ai: how do I reset my password?''"
      example_config example_world 60]
  show ?thesis by simp
qed

text \<open>
  C2 (amended).  A creation request by a user who has an open ticket leaves the database
  as it was and answers with that ticket's id.  In every sequential execution from the
  empty database each user has at most one open ticket.  When a user has no ticket at
  all and the first of two consecutive requests gets its staff channel (the guild, the
  category and the staff role are found and \<open>create_text_channel\<close> returns), the
  first request adds exactly one row and the second is answered with that row's id.
\<close>

theorem one_open_ticket_per_user:
  "(\<forall>t. get_user_open_ticket db (u_id user) = Some t \<longrightarrow>
      handle_ticket_creation cfg w now user db =
        (db, [Respond (AlreadyOpen (ticket_id t))], outcome w (Respond (AlreadyOpen (ticket_id t))))) \<and>
   length (open_tickets_of (run cfg evs init_database) uid) \<le> 1 \<and>
   (rdb = run cfg evs init_database \<and> (\<forall>t \<in> set (tickets rdb). user_id t \<noteq> u_id user) \<and>
    get_guild w1 (SUPPORT_GUILD_ID cfg) \<and> get_category w1 (TICKET_CATEGORY_ID cfg) \<and>
    get_role w1 (STAFF_ROLE_ID cfg) \<and>
    create_text_channel w1 (''ticket-'' @ u_name user) = Inr chan \<and>
    db1 = fst (handle_ticket_creation cfg w1 now1 user rdb) \<longrightarrow>
      tickets db1 = tickets rdb @
        [\<lparr>row_id = Suc (length (tickets rdb)), ticket_id = generate_ticket_id (u_id user) now1,
          user_id = u_id user, username = u_str user, status = ''open'', created_at = now1,
          closed_at = None, support_channel_id = chan, category = ''general''\<rparr>] \<and>
      handle_ticket_creation cfg w2 now2 user db1 =
        (db1, [Respond (AlreadyOpen (generate_ticket_id (u_id user) now1))],
         outcome w2 (Respond (AlreadyOpen (generate_ticket_id (u_id user) now1)))))"
proof (intro conjI allI impI)
  fix t
  assume "get_user_open_ticket db (u_id user) = Some t"
  then show "handle_ticket_creation cfg w now user db =
        (db, [Respond (AlreadyOpen (ticket_id t))], outcome w (Respond (AlreadyOpen (ticket_id t))))"
    by (rule already_open_reply)
next
  show "length (open_tickets_of (run cfg evs init_database) uid) \<le> 1"
    by (rule one_open_ticket_run)
next
  assume h: "rdb = run cfg evs init_database \<and> (\<forall>t \<in> set (tickets rdb). user_id t \<noteq> u_id user) \<and>
    get_guild w1 (SUPPORT_GUILD_ID cfg) \<and> get_category w1 (TICKET_CATEGORY_ID cfg) \<and>
    get_role w1 (STAFF_ROLE_ID cfg) \<and>
    create_text_channel w1 (''ticket-'' @ u_name user) = Inr chan \<and>
    db1 = fst (handle_ticket_creation cfg w1 now1 user rdb)"
  let ?row = "\<lparr>row_id = Suc (length (tickets rdb)), ticket_id = generate_ticket_id (u_id user) now1,
          user_id = u_id user, username = u_str user, status = ''open'', created_at = now1,
          closed_at = None, support_channel_id = chan, category = ''general''\<rparr>"
  from h have gen: "generated_ids rdb" by (simp add: generated_ids_run)
  from h have none: "\<forall>t \<in> set (tickets rdb). user_id t \<noteq> u_id user" by simp
  from h first_ticket_created [OF gen none, of w1 cfg chan now1]
  have db1: "db1 = rdb\<lparr>tickets := tickets rdb @ [?row]\<rparr>" by simp
  then show "tickets db1 = tickets rdb @ [?row]" by simp
  from find_new_row [OF none, of ?row] db1
  have "get_user_open_ticket db1 (u_id user) = Some ?row" by simp
  from already_open_reply [OF this]
  show "handle_ticket_creation cfg w2 now2 user db1 =
        (db1, [Respond (AlreadyOpen (generate_ticket_id (u_id user) now1))],
         outcome w2 (Respond (AlreadyOpen (generate_ticket_id (u_id user) now1))))"
    by simp
qed

theorem one_open_ticket_per_user_witness:
  "get_user_open_ticket \<lparr>tickets = [alice_ticket], ticket_messages = []\<rparr> (u_id alice) = Some alice_ticket \<and>
   handle_ticket_creation example_config example_world 60 alice
       \<lparr>tickets = [alice_ticket], ticket_messages = []\<rparr> =
     (\<lparr>tickets = [alice_ticket], ticket_messages = []\<rparr>,
      [Respond (AlreadyOpen (generate_ticket_id 7 50))], None) \<and>
   tickets (fst (handle_ticket_creation example_config example_world 50 alice init_database)) =
     [alice_ticket] \<and>
   handle_ticket_creation example_config example_world 60 alice
       (fst (handle_ticket_creation example_config example_world 50 alice init_database)) =
     (fst (handle_ticket_creation example_config example_world 50 alice init_database),
      [Respond (AlreadyOpen (generate_ticket_id 7 50))], None)"
proof -
  have pre: "init_database = run example_config [] init_database \<and>
    (\<forall>t \<in> set (tickets init_database). user_id t \<noteq> u_id alice) \<and>
    get_guild example_world (SUPPORT_GUILD_ID example_config) \<and>
    get_category example_world (TICKET_CATEGORY_ID example_config) \<and>
    get_role example_world (STAFF_ROLE_ID example_config) \<and>
    create_text_channel example_world (''ticket-'' @ u_name alice) = Inr 100 \<and>
    fst (handle_ticket_creation example_config example_world 50 alice init_database) =
      fst (handle_ticket_creation example_config example_world 50 alice init_database)"
    by (simp add: init_database_def example_world_def)
  from alice_open pre
    one_open_ticket_per_user [of "\<lparr>tickets = [alice_ticket], ticket_messages = []\<rparr>" alice
      example_config example_world 60 "[]" 7 init_database example_world 100
      "fst (handle_ticket_creation example_config example_world 50 alice init_database)" 50
      example_world 60]
  show ?thesis
    by (simp add: alice_ticket_def alice_def example_world_def init_database_def)
qed

text \<open>
  The claim as stated fails where the support guild is not found: two consecutive
  requests of a user without a ticket then create no ticket, and the second is not
  answered as already open.
\<close>

theorem two_failed_creations:
  "tickets init_database = [] \<and>
   handle_ticket_creation example_config no_guild_world 50 alice init_database =
     (init_database, [Respond SupportServerNotFound], None) \<and>
   handle_ticket_creation example_config no_guild_world 60 alice
       (fst (handle_ticket_creation example_config no_guild_world 50 alice init_database)) =
     (init_database, [Respond SupportServerNotFound], None)"
  by (simp add: handle_ticket_creation_def open_ticket_channel_def perform_def
      get_user_open_ticket_def init_database_def no_guild_world_def example_world_def
      example_config_def)

text \<open>
  C10.  For a direct message from a user with no open ticket, the assistant is asked
  exactly when the lowercased content starts with "ai:", that is, when the content starts
  with "a" or "A", then "i" or "I", then a colon.  The question handed to
  \<open>get_ai_response\<close>, and by it to the provider, is the content without its first three
  characters, stripped: the middle of that rest between two runs of whitespace, not
  beginning or ending with whitespace.  Any other content gets the prompt to create a
  ticket.
\<close>

theorem ai_trigger:
  "get_user_open_ticket db (u_id (author m)) = None \<longrightarrow>
     (startswith (lower (content m)) ''ai:'' \<longleftrightarrow>
        (\<exists>a i rest. content m = a # i # CHR '':'' # rest \<and>
           (a = CHR ''a'' \<or> a = CHR ''A'') \<and> (i = CHR ''i'' \<or> i = CHR ''I''))) \<and>
     (startswith (lower (content m)) ''ai:'' \<longrightarrow>
        (\<exists>answer. get_ai_response cfg w (strip (drop 3 (content m))) = Inr answer \<and>
           handle_dm_message cfg w now m db =
             (db, [ChannelSend (channel_id m) (AIAssistant answer)],
              outcome w (ChannelSend (channel_id m) (AIAssistant answer)))) \<and>
        (\<forall>reply. \<not> no_key cfg \<and> chat_completion w (strip (drop 3 (content m))) = Inr [Some reply] \<longrightarrow>
           fst (snd (handle_dm_message cfg w now m db)) =
             [ChannelSend (channel_id m) (AIAssistant (strip reply))]) \<and>
        stripped_of (drop 3 (content m)) (strip (drop 3 (content m)))) \<and>
     (\<not> startswith (lower (content m)) ''ai:'' \<longrightarrow>
        handle_dm_message cfg w now m db =
          (db, [ChannelSend (channel_id m) MessageReceived],
           outcome w (ChannelSend (channel_id m) MessageReceived)))"
proof (intro impI conjI allI)
  show "startswith (lower (content m)) ''ai:'' \<longleftrightarrow>
        (\<exists>a i rest. content m = a # i # CHR '':'' # rest \<and>
           (a = CHR ''a'' \<or> a = CHR ''A'') \<and> (i = CHR ''i'' \<or> i = CHR ''I''))"
    by (rule startswith_ai)
next
  assume n: "get_user_open_ticket db (u_id (author m)) = None"
    and s: "startswith (lower (content m)) ''ai:''"
  from get_ai_response_Inr
  obtain answer where a: "get_ai_response cfg w (strip (drop 3 (content m))) = Inr answer"
    by blast
  with n s have "handle_dm_message cfg w now m db =
             (db, [ChannelSend (channel_id m) (AIAssistant answer)],
              outcome w (ChannelSend (channel_id m) (AIAssistant answer)))"
    by (simp add: handle_dm_message_def perform_def)
  with a show "\<exists>answer. get_ai_response cfg w (strip (drop 3 (content m))) = Inr answer \<and>
           handle_dm_message cfg w now m db =
             (db, [ChannelSend (channel_id m) (AIAssistant answer)],
              outcome w (ChannelSend (channel_id m) (AIAssistant answer)))"
    by blast
next
  fix reply
  assume n: "get_user_open_ticket db (u_id (author m)) = None"
    and s: "startswith (lower (content m)) ''ai:''"
    and k: "\<not> no_key cfg \<and> chat_completion w (strip (drop 3 (content m))) = Inr [Some reply]"
  then show "fst (snd (handle_dm_message cfg w now m db)) =
             [ChannelSend (channel_id m) (AIAssistant (strip reply))]"
    by (simp add: handle_dm_message_def perform_def get_ai_response_def request_completion_def)
next
  show "stripped_of (drop 3 (content m)) (strip (drop 3 (content m)))"
    by (rule strip_stripped)
next
  assume n: "get_user_open_ticket db (u_id (author m)) = None"
    and s: "\<not> startswith (lower (content m)) ''ai:''"
  then show "handle_dm_message cfg w now m db =
          (db, [ChannelSend (channel_id m) MessageReceived],
           outcome w (ChannelSend (channel_id m) MessageReceived))"
    by (simp add: handle_dm_message_def perform_def)
qed

theorem ai_trigger_witness:
  "get_user_open_ticket init_database (u_id (author (alice_dm ''AI:  reset?  ''))) = None \<and>
   startswith (lower (content (alice_dm ''AI:  reset?  ''))) ''ai:'' \<and>
   \<not> no_key example_config_ai \<and>
   chat_completion example_world (strip (drop 3 (content (alice_dm ''AI:  reset?  '')))) =
     Inr [Some ''reset?''] \<and>
   handle_dm_message example_config_ai example_world 60 (alice_dm ''AI:  reset?  '') init_database =
     (init_database, [ChannelSend 70 (AIAssistant ''reset?'')], None) \<and>
   \<not> startswith (lower (content (alice_dm ''hello''))) ''ai:'' \<and>
   handle_dm_message example_config_ai example_world 60 (alice_dm ''hello'') init_database =
     (init_database, [ChannelSend 70 MessageReceived], None)"
proof -
  have s: "startswith (lower (content (alice_dm ''AI:  reset?  ''))) ''ai:''"
    by (simp add: startswith_ai alice_dm_def)
  have k: "\<not> no_key example_config_ai"
    by (simp add: no_key_def example_config_ai_def example_config_def)
  have q: "strip (drop 3 (content (alice_dm ''AI:  reset?  ''))) = ''reset?''"
    by (simp add: alice_dm_def strip_def isspace_def)
  have c: "chat_completion example_world ''reset?'' = Inr [Some ''reset?'']"
    by (simp add: example_world_def)
  have st: "strip ''reset?'' = ''reset?''" by (simp add: strip_def isspace_def)
  have a: "get_ai_response example_config_ai example_world ''reset?'' = Inr ''reset?''"
    using k c st by (simp add: get_ai_response_def request_completion_def)
  have n: "\<not> startswith (lower (content (alice_dm ''hello''))) ''ai:''"
    by (simp add: startswith_ai alice_dm_def)
  have ch: "channel_id (alice_dm body) = 70" "outcome example_world x = None" for body x
    by (simp_all add: alice_dm_def example_world_def)
  from alice_no_ticket s k q c a n ch
    ai_trigger [of init_database "alice_dm ''AI:  reset?  ''" example_config_ai example_world 60]
    ai_trigger [of init_database "alice_dm ''hello''" example_config_ai example_world 60]
  show ?thesis by simp
qed

text \<open>
  C4 (amended).  For a direct message of a non-bot user who has an open ticket whose
  staff channel \<open>bot.get_channel\<close> finds, \<open>on_message\<close> appends exactly one message row,
  with the id of that ticket, the sender and the content, and sends the content with the
  sender's name to the ticket's staff channel; when that send returns it adds the
  reaction to the user's message, and when it raises the exception leaves the handler.
\<close>

theorem dm_forwarded:
  "\<not> u_bot (author m) \<and> is_dm m \<and> get_user_open_ticket db (u_id (author m)) = Some t \<and>
   get_channel w (support_channel_id t) \<longrightarrow>
     fst (on_message cfg w now m db) =
       db\<lparr>ticket_messages := ticket_messages db @
           [\<lparr>msg_row_id = Suc (length (ticket_messages db)), msg_ticket_id = ticket_id t,
             author_id = u_id (author m), author_name = u_str (author m),
             message_content = content m, timestamp = now\<rparr>]\<rparr> \<and>
     (outcome w (ChannelSend (support_channel_id t) (MessageFrom (u_str (author m)) (content m) now))
        = None \<longrightarrow>
        snd (on_message cfg w now m db) =
          ([ChannelSend (support_channel_id t) (MessageFrom (u_str (author m)) (content m) now),
            AddReaction], outcome w AddReaction)) \<and>
     (\<forall>e. outcome w (ChannelSend (support_channel_id t)
               (MessageFrom (u_str (author m)) (content m) now)) = Some e \<longrightarrow>
        snd (on_message cfg w now m db) =
          ([ChannelSend (support_channel_id t) (MessageFrom (u_str (author m)) (content m) now)],
           Some e))"
  by (auto simp: on_message_def handle_dm_message_def add_message_def perform_def Let_def
      split: option.splits)

theorem dm_forwarded_witness:
  "\<not> u_bot (author (alice_dm ''my printer is on fire'')) \<and>
   is_dm (alice_dm ''my printer is on fire'') \<and>
   get_user_open_ticket alice_db (u_id (author (alice_dm ''my printer is on fire''))) =
     Some alice_ticket \<and>
   get_channel example_world (support_channel_id alice_ticket) \<and>
   on_message example_config example_world 60 (alice_dm ''my printer is on fire'') alice_db =
     (alice_db\<lparr>ticket_messages :=
         [\<lparr>msg_row_id = 1, msg_ticket_id = generate_ticket_id 7 50, author_id = 7,
           author_name = ''alice#0001'', message_content = ''my printer is on fire'',
           timestamp = 60\<rparr>]\<rparr>,
      [ChannelSend 100 (MessageFrom ''alice#0001'' ''my printer is on fire'' 60), AddReaction],
      None) \<and>
   get_channel failing_send_world (support_channel_id alice_ticket) \<and>
   on_message example_config failing_send_world 60 (alice_dm ''my printer is on fire'') alice_db =
     (alice_db\<lparr>ticket_messages :=
         [\<lparr>msg_row_id = 1, msg_ticket_id = generate_ticket_id 7 50, author_id = 7,
           author_name = ''alice#0001'', message_content = ''my printer is on fire'',
           timestamp = 60\<rparr>]\<rparr>,
      [ChannelSend 100 (MessageFrom ''alice#0001'' ''my printer is on fire'' 60)],
      Some HTTPException)"
proof -
  have p: "\<not> u_bot (author (alice_dm ''my printer is on fire''))"
    "is_dm (alice_dm ''my printer is on fire'')"
    "get_channel example_world (support_channel_id alice_ticket)"
    "get_channel failing_send_world (support_channel_id alice_ticket)"
    by (simp_all add: alice_dm_def alice_user_def alice_def example_world_def failing_send_world_def)
  have o: "outcome example_world x = None" "outcome failing_send_world x = Some HTTPException"
    for x by (simp_all add: example_world_def failing_send_world_def)
  have v: "support_channel_id alice_ticket = 100" "ticket_id alice_ticket = generate_ticket_id 7 50"
    "u_str (author (alice_dm body)) = ''alice#0001''" "u_id (author (alice_dm body)) = 7"
    "content (alice_dm body) = body" "ticket_messages alice_db = []" for body
    by (simp_all add: alice_ticket_def alice_dm_def alice_user_def alice_def alice_db_def)
  note h = alice_db_open [of "''my printer is on fire''"]
  note ok_case = dm_forwarded [of "alice_dm ''my printer is on fire''" alice_db alice_ticket
      example_world example_config 60, THEN mp, OF conjI [OF p(1) conjI [OF p(2) conjI [OF h p(3)]]]]
  note bad_case = dm_forwarded [of "alice_dm ''my printer is on fire''" alice_db alice_ticket
      failing_send_world example_config 60, THEN mp,
      OF conjI [OF p(1) conjI [OF p(2) conjI [OF h p(4)]]]]
  from ok_case have ok_db: "fst (on_message example_config example_world 60
        (alice_dm ''my printer is on fire'') alice_db) =
      alice_db\<lparr>ticket_messages :=
         [\<lparr>msg_row_id = 1, msg_ticket_id = generate_ticket_id 7 50, author_id = 7,
           author_name = ''alice#0001'', message_content = ''my printer is on fire'',
           timestamp = 60\<rparr>]\<rparr>"
    by (simp add: v)
  from ok_case have ok_acts: "snd (on_message example_config example_world 60
        (alice_dm ''my printer is on fire'') alice_db) =
      ([ChannelSend 100 (MessageFrom ''alice#0001'' ''my printer is on fire'' 60), AddReaction],
       None)"
    by (simp add: v o)
  from bad_case have bad_db: "fst (on_message example_config failing_send_world 60
        (alice_dm ''my printer is on fire'') alice_db) =
      alice_db\<lparr>ticket_messages :=
         [\<lparr>msg_row_id = 1, msg_ticket_id = generate_ticket_id 7 50, author_id = 7,
           author_name = ''alice#0001'', message_content = ''my printer is on fire'',
           timestamp = 60\<rparr>]\<rparr>"
    by (simp add: v)
  from bad_case have bad_acts: "snd (on_message example_config failing_send_world 60
        (alice_dm ''my printer is on fire'') alice_db) =
      ([ChannelSend 100 (MessageFrom ''alice#0001'' ''my printer is on fire'' 60)],
       Some HTTPException)"
    by (simp add: v o)
  from p h ok_db ok_acts bad_db bad_acts show ?thesis
    by (simp add: prod_eq_iff)
qed

text \<open>
  The claim as stated fails where \<open>bot.get_channel\<close> does not find the staff channel: the
  message is neither recorded nor forwarded nor acknowledged.
\<close>

theorem dm_dropped_without_channel:
  "\<not> u_bot (author (alice_dm ''my printer is on fire'')) \<and>
   is_dm (alice_dm ''my printer is on fire'') \<and>
   get_user_open_ticket alice_db (u_id (author (alice_dm ''my printer is on fire''))) =
     Some alice_ticket \<and>
   on_message example_config no_channel_world 60 (alice_dm ''my printer is on fire'') alice_db =
     (alice_db, [], None)"
  by (simp add: on_message_def handle_dm_message_def alice_db_open)
     (simp add: alice_dm_def alice_user_def alice_def no_channel_world_def example_world_def)

text \<open>
  C5 (amended).  For a message of a non-bot author in a recognized ticket channel (a
  channel of the support guild whose name starts with "ticket-") that has a matching open
  ticket, \<open>on_message\<close> appends the message to the ticket's history, and the row stays
  whatever happens afterwards.  When \<open>bot.get_user\<close> finds the ticket's owner, the
  content is then sent to the owner with the staff author's name; if that send raises
  \<open>Forbidden\<close>, the staff channel is sent the notice that the DM failed.  When
  \<open>bot.get_user\<close> does not find the owner nothing is sent at all, and when the send
  raises another error nothing more is sent and the error leaves the handler.
\<close>

theorem staff_reply_routed:
  "\<not> u_bot (author m) \<and> \<not> is_dm m \<and> guild_id m = Some (SUPPORT_GUILD_ID cfg) \<and>
   startswith (channel_name m) ''ticket-'' \<and>
   get_open_ticket_by_channel db (channel_id m) = Some t \<longrightarrow>
     fst (on_message cfg w now m db) =
       db\<lparr>ticket_messages := ticket_messages db @
           [\<lparr>msg_row_id = Suc (length (ticket_messages db)), msg_ticket_id = ticket_id t,
             author_id = u_id (author m), author_name = u_str (author m),
             message_content = content m, timestamp = now\<rparr>]\<rparr> \<and>
     (get_user w (user_id t) \<longrightarrow>
        (\<exists>rest. fst (snd (on_message cfg w now m db)) =
           UserSend (user_id t) (SupportResponse (u_str (author m)) (content m) now) # rest)) \<and>
     (get_user w (user_id t) \<and>
      outcome w (UserSend (user_id t) (SupportResponse (u_str (author m)) (content m) now)) =
        Some Forbidden \<longrightarrow>
        snd (on_message cfg w now m db) =
          ([UserSend (user_id t) (SupportResponse (u_str (author m)) (content m) now),
            ChannelSend (channel_id m) DMsDisabledWarning],
           outcome w (ChannelSend (channel_id m) DMsDisabledWarning))) \<and>
     (\<not> get_user w (user_id t) \<longrightarrow> snd (on_message cfg w now m db) = ([], None)) \<and>
     (\<forall>e. get_user w (user_id t) \<and> e \<noteq> Forbidden \<and>
        outcome w (UserSend (user_id t) (SupportResponse (u_str (author m)) (content m) now)) =
          Some e \<longrightarrow>
        snd (on_message cfg w now m db) =
          ([UserSend (user_id t) (SupportResponse (u_str (author m)) (content m) now)], Some e))"
  by (auto simp: on_message_def handle_support_message_def add_message_def perform_def Let_def
      split: option.splits exc.splits)

theorem staff_reply_routed_witness:
  "\<not> u_bot (author (bob_reply ''please confirm your email'')) \<and>
   \<not> is_dm (bob_reply ''please confirm your email'') \<and>
   guild_id (bob_reply ''please confirm your email'') = Some (SUPPORT_GUILD_ID example_config) \<and>
   startswith (channel_name (bob_reply ''please confirm your email'')) ''ticket-'' \<and>
   get_open_ticket_by_channel alice_db (channel_id (bob_reply ''please confirm your email'')) =
     Some alice_ticket \<and>
   get_user example_world (user_id alice_ticket) \<and>
   on_message example_config example_world 70 (bob_reply ''please confirm your email'') alice_db =
     (alice_db\<lparr>ticket_messages :=
         [\<lparr>msg_row_id = 1, msg_ticket_id = generate_ticket_id 7 50, author_id = 8,
           author_name = ''bob#0002'', message_content = ''please confirm your email'',
           timestamp = 70\<rparr>]\<rparr>,
      [UserSend 7 (SupportResponse ''bob#0002'' ''please confirm your email'' 70), AddReaction],
      None) \<and>
   get_user forbidden_dm_world (user_id alice_ticket) \<and>
   outcome forbidden_dm_world
     (UserSend 7 (SupportResponse ''bob#0002'' ''please confirm your email'' 70)) = Some Forbidden \<and>
   snd (on_message example_config forbidden_dm_world 70 (bob_reply ''please confirm your email'')
         alice_db) =
     ([UserSend 7 (SupportResponse ''bob#0002'' ''please confirm your email'' 70),
       ChannelSend 100 DMsDisabledWarning], None) \<and>
   \<not> get_user no_user_world (user_id alice_ticket) \<and>
   snd (on_message example_config no_user_world 70 (bob_reply ''please confirm your email'')
         alice_db) = ([], None) \<and>
   get_user failing_send_world (user_id alice_ticket) \<and>
   outcome failing_send_world
     (UserSend 7 (SupportResponse ''bob#0002'' ''please confirm your email'' 70)) =
     Some HTTPException \<and>
   snd (on_message example_config failing_send_world 70 (bob_reply ''please confirm your email'')
         alice_db) =
     ([UserSend 7 (SupportResponse ''bob#0002'' ''please confirm your email'' 70)],
      Some HTTPException)"
proof -
  note r = bob_reply_routed [of "''please confirm your email''"]
  note c = alice_db_channel [of "''please confirm your email''"]
  note pre = conjI [OF r(1) conjI [OF r(2) conjI [OF r(3) conjI [OF r(4) c]]]]
  have u: "get_user example_world (user_id alice_ticket)"
    "get_user forbidden_dm_world (user_id alice_ticket)"
    "\<not> get_user no_user_world (user_id alice_ticket)"
    "get_user failing_send_world (user_id alice_ticket)"
    by (simp_all add: example_world_def forbidden_dm_world_def no_user_world_def
        failing_send_world_def)
  have v: "user_id alice_ticket = 7" "ticket_id alice_ticket = generate_ticket_id 7 50"
    "u_str (author (bob_reply body)) = ''bob#0002''" "u_id (author (bob_reply body)) = 8"
    "content (bob_reply body) = body" "channel_id (bob_reply body) = 100"
    "ticket_messages alice_db = []" for body
    by (simp_all add: alice_ticket_def bob_reply_def bob_def alice_db_def)
  have f: "outcome forbidden_dm_world
      (UserSend 7 (SupportResponse ''bob#0002'' ''please confirm your email'' 70)) = Some Forbidden"
    "outcome forbidden_dm_world (ChannelSend 100 DMsDisabledWarning) = None"
    "outcome failing_send_world
      (UserSend 7 (SupportResponse ''bob#0002'' ''please confirm your email'' 70)) =
      Some HTTPException"
    by (simp_all add: forbidden_dm_world_def failing_send_world_def example_world_def)
  note ok_case = staff_reply_routed [of "bob_reply ''please confirm your email''" example_config
      alice_db alice_ticket example_world 70, THEN mp, OF pre]
  note forbidden_case = staff_reply_routed [of "bob_reply ''please confirm your email''"
      example_config alice_db alice_ticket forbidden_dm_world 70, THEN mp, OF pre]
  note lost_case = staff_reply_routed [of "bob_reply ''please confirm your email''"
      example_config alice_db alice_ticket no_user_world 70, THEN mp, OF pre]
  note error_case = staff_reply_routed [of "bob_reply ''please confirm your email''"
      example_config alice_db alice_ticket failing_send_world 70, THEN mp, OF pre]
  from ok_case have ok_db: "fst (on_message example_config example_world 70
        (bob_reply ''please confirm your email'') alice_db) =
      alice_db\<lparr>ticket_messages :=
         [\<lparr>msg_row_id = 1, msg_ticket_id = generate_ticket_id 7 50, author_id = 8,
           author_name = ''bob#0002'', message_content = ''please confirm your email'',
           timestamp = 70\<rparr>]\<rparr>"
    by (simp add: v)
  have ok_acts: "snd (on_message example_config example_world 70
        (bob_reply ''please confirm your email'') alice_db) =
      ([UserSend 7 (SupportResponse ''bob#0002'' ''please confirm your email'' 70), AddReaction],
       None)"
    by (simp add: on_message_def handle_support_message_def bob_reply_routed alice_db_channel
        add_message_def Let_def)
       (simp add: bob_reply_def bob_def alice_ticket_def alice_db_def example_world_def)
  from forbidden_case u(2) f(1,2) have forbidden_acts:
    "snd (on_message example_config forbidden_dm_world 70
        (bob_reply ''please confirm your email'') alice_db) =
     ([UserSend 7 (SupportResponse ''bob#0002'' ''please confirm your email'' 70),
       ChannelSend 100 DMsDisabledWarning], None)"
    by (simp add: v)
  from lost_case u(3) have lost_acts:
    "snd (on_message example_config no_user_world 70
        (bob_reply ''please confirm your email'') alice_db) = ([], None)"
    by (simp add: v)
  from error_case u(4) f(3) have error_acts:
    "snd (on_message example_config failing_send_world 70
        (bob_reply ''please confirm your email'') alice_db) =
     ([UserSend 7 (SupportResponse ''bob#0002'' ''please confirm your email'' 70)],
      Some HTTPException)"
    by (simp add: v)
  from r c u f(1,3) ok_db ok_acts forbidden_acts lost_acts error_acts show ?thesis
    by (simp add: prod_eq_iff)
qed

text \<open>
  The claim as stated fails in three ways.  Where \<open>bot.get_user\<close> does not find the
  owner, the message is recorded but not forwarded, and the staff channel is told
  nothing.  Where the send to the owner raises an error other than \<open>Forbidden\<close>, the
  staff channel is told nothing either.  And a message of a bot in the ticket channel,
  such as the bot's own announcement, is not recorded.
\<close>

theorem staff_reply_not_forwarded:
  "get_open_ticket_by_channel alice_db (channel_id (bob_reply ''please confirm your email'')) =
     Some alice_ticket \<and>
   on_message example_config no_user_world 70 (bob_reply ''please confirm your email'') alice_db =
     (alice_db\<lparr>ticket_messages :=
         [\<lparr>msg_row_id = 1, msg_ticket_id = generate_ticket_id 7 50, author_id = 8,
           author_name = ''bob#0002'', message_content = ''please confirm your email'',
           timestamp = 70\<rparr>]\<rparr>, [], None) \<and>
   on_message example_config failing_send_world 70 (bob_reply ''please confirm your email'')
       alice_db =
     (alice_db\<lparr>ticket_messages :=
         [\<lparr>msg_row_id = 1, msg_ticket_id = generate_ticket_id 7 50, author_id = 8,
           author_name = ''bob#0002'', message_content = ''please confirm your email'',
           timestamp = 70\<rparr>]\<rparr>,
      [UserSend 7 (SupportResponse ''bob#0002'' ''please confirm your email'' 70)],
      Some HTTPException) \<and>
   get_open_ticket_by_channel alice_db (channel_id bot_announcement) = Some alice_ticket \<and>
   on_message example_config example_world 55 bot_announcement alice_db = (alice_db, [], None)"
proof -
  have lost: "on_message example_config no_user_world 70
        (bob_reply ''please confirm your email'') alice_db =
     (alice_db\<lparr>ticket_messages :=
         [\<lparr>msg_row_id = 1, msg_ticket_id = generate_ticket_id 7 50, author_id = 8,
           author_name = ''bob#0002'', message_content = ''please confirm your email'',
           timestamp = 70\<rparr>]\<rparr>, [], None)"
    by (simp add: on_message_def handle_support_message_def bob_reply_routed alice_db_channel
        add_message_def)
       (simp add: bob_reply_def bob_def alice_ticket_def alice_db_def no_user_world_def
        example_world_def)
  have error: "on_message example_config failing_send_world 70
        (bob_reply ''please confirm your email'') alice_db =
     (alice_db\<lparr>ticket_messages :=
         [\<lparr>msg_row_id = 1, msg_ticket_id = generate_ticket_id 7 50, author_id = 8,
           author_name = ''bob#0002'', message_content = ''please confirm your email'',
           timestamp = 70\<rparr>]\<rparr>,
      [UserSend 7 (SupportResponse ''bob#0002'' ''please confirm your email'' 70)],
      Some HTTPException)"
    by (simp add: on_message_def handle_support_message_def bob_reply_routed alice_db_channel
        add_message_def Let_def)
       (simp add: bob_reply_def bob_def alice_ticket_def alice_db_def failing_send_world_def
        example_world_def)
  have chan: "get_open_ticket_by_channel alice_db (channel_id bot_announcement) = Some alice_ticket"
    by (simp add: get_open_ticket_by_channel_def alice_db_def alice_ticket_def
        bot_announcement_def)
  have bot: "on_message example_config example_world 55 bot_announcement alice_db =
      (alice_db, [], None)"
    by (simp add: on_message_def bot_announcement_def ticket_bot_def)
  from alice_db_channel [of "''please confirm your email''"] lost error chan bot
  show ?thesis by blast
qed

lemma no_empty_ticket_id:
  assumes "generated_ids db" and "t \<in> set (tickets db)"
  shows "ticket_id t \<noteq> []"
  using assms generate_ticket_id_not_empty by (auto simp: generated_ids_def)

lemma close_empty_id:
  assumes "generated_ids db"
  shows "close_ticket db now [] = db" and "get_ticket db [] = None"
proof -
  have "map (close_row now []) (tickets db) = tickets db"
    by (rule map_idI) (simp add: close_row_def no_empty_ticket_id [OF assms])
  then show "close_ticket db now [] = db" by (simp add: close_ticket_def)
  show "get_ticket db [] = None"
    by (simp add: get_ticket_def find_None_iff no_empty_ticket_id [OF assms])
qed

text \<open>
  C9 (amended).  Whatever close view \<open>on_ready\<close> registers carries the empty ticket id,
  and it registers one when it finds both the main guild and the support guild.  In
  every database a sequential execution reaches, \<open>close_ticket\<close> with the empty id
  changes no row, so a press of that view leaves the database as it was; when the
  invoker holds the staff role the announcement is edited to "Closed" all the same.
\<close>

theorem persistent_close_view:
  "(\<forall>v \<in> set (on_ready cfg w0). \<forall>tid. v = TicketCloseView tid \<longrightarrow> tid = []) \<and>
   (get_guild w0 (MAIN_GUILD_ID cfg) \<and> get_guild w0 (SUPPORT_GUILD_ID cfg) \<longrightarrow>
      TicketCloseView [] \<in> set (on_ready cfg w0)) \<and>
   (db = run cfg evs init_database \<longrightarrow>
      close_ticket db now [] = db \<and>
      fst (press cfg w now (TicketCloseView []) user db) = db \<and>
      (u_roles user = Some ids \<and> STAFF_ROLE_ID cfg \<in> set ids \<longrightarrow>
         press cfg w now (TicketCloseView []) user db =
           (db, [EditMessage (ClosedAnnouncement [] (u_mention user) now)],
            outcome w (EditMessage (ClosedAnnouncement [] (u_mention user) now)))))"
proof (intro conjI impI ballI allI)
  fix v tid
  assume "v \<in> set (on_ready cfg w0)" "v = TicketCloseView tid"
  then show "tid = []" by (auto simp: on_ready_def split: if_splits)
next
  assume "get_guild w0 (MAIN_GUILD_ID cfg) \<and> get_guild w0 (SUPPORT_GUILD_ID cfg)"
  then show "TicketCloseView [] \<in> set (on_ready cfg w0)" by (simp add: on_ready_def)
next
  assume db: "db = run cfg evs init_database"
  then have gen: "generated_ids db" by (simp add: generated_ids_run)
  show "close_ticket db now [] = db" by (rule close_empty_id [OF gen])
  show "fst (press cfg w now (TicketCloseView []) user db) = db"
    by (simp add: close_ticket_button_fst close_empty_id [OF gen])
  assume "u_roles user = Some ids \<and> STAFF_ROLE_ID cfg \<in> set ids"
  then show "press cfg w now (TicketCloseView []) user db =
           (db, [EditMessage (ClosedAnnouncement [] (u_mention user) now)],
            outcome w (EditMessage (ClosedAnnouncement [] (u_mention user) now)))"
    by (simp add: close_ticket_button_def role_ids_def close_empty_id [OF gen] Let_def
        split: option.splits)
qed

theorem persistent_close_view_witness:
  "TicketCloseView [] \<in> set (on_ready example_config example_world) \<and>
   get_guild example_world (MAIN_GUILD_ID example_config) \<and>
   get_guild example_world (SUPPORT_GUILD_ID example_config) \<and>
   alice_db = run example_config [(example_world, 50, Press TicketView alice)] init_database \<and>
   u_roles bob = Some [3] \<and> STAFF_ROLE_ID example_config \<in> set [3] \<and>
   close_ticket alice_db 200 [] = alice_db \<and>
   press example_config example_world 200 (TicketCloseView []) bob alice_db =
     (alice_db, [EditMessage (ClosedAnnouncement [] ''<@8>'' 200)], None)"
proof -
  have g: "get_guild example_world x" "outcome example_world y = None" for x y
    by (simp_all add: example_world_def)
  have s: "u_roles bob = Some [3]" "STAFF_ROLE_ID example_config \<in> set [3]"
    "u_mention bob = ''<@8>''"
    by (simp_all add: example_config_def bob_def)
  note t = persistent_close_view [of example_config example_world alice_db
      "[(example_world, 50, Press TicketView alice)]" 200 example_world bob "[3]"]
  from t g(1) have reg: "TicketCloseView [] \<in> set (on_ready example_config example_world)"
    by blast
  from t [THEN conjunct2, THEN conjunct2, THEN mp, OF example_run [symmetric]]
  have frame: "close_ticket alice_db 200 [] = alice_db"
    and edit: "u_roles bob = Some [3] \<and> STAFF_ROLE_ID example_config \<in> set [3] \<longrightarrow>
      press example_config example_world 200 (TicketCloseView []) bob alice_db =
        (alice_db, [EditMessage (ClosedAnnouncement [] (u_mention bob) 200)],
         outcome example_world (EditMessage (ClosedAnnouncement [] (u_mention bob) 200)))"
    by blast+
  from edit s g(2) have pressed:
    "press example_config example_world 200 (TicketCloseView []) bob alice_db =
       (alice_db, [EditMessage (ClosedAnnouncement [] ''<@8>'' 200)], None)"
    by simp
  from reg g(1) example_run s(1,2) frame pressed show ?thesis by simp
qed

text \<open>
  The claim as stated fails in two ways.  Where \<open>on_ready\<close> does not find the main guild
  it returns before \<open>bot.add_view\<close>, so after that restart no close view is registered.
  And a press by a member without the staff role edits nothing: it gets the permission
  reply.
\<close>

theorem close_view_not_registered:
  "on_ready example_config no_guild_world = [] \<and>
   press example_config example_world 200 (TicketCloseView []) alice alice_db =
     (alice_db, [Respond OnlyStaffCanClose], None)"
  by (simp add: on_ready_def no_guild_world_def close_ticket_button_def role_ids_def perform_def
      example_world_def example_config_def alice_def)

text \<open>
  The \<open>close\<close> command answers a closed ticket with "already closed" and leaves the
  database as it was.
\<close>

lemma close_command_already_closed:
  "u_roles user = Some ids \<Longrightarrow> STAFF_ROLE_ID cfg \<in> set ids \<Longrightarrow> get_ticket db tid = Some t \<Longrightarrow>
   status t = ''closed'' \<Longrightarrow>
   close_ticket_command cfg w now user tid db =
     (db, [Respond TicketAlreadyClosed], outcome w (Respond TicketAlreadyClosed))"
  by (simp add: close_ticket_command_def role_ids_def perform_def)

text \<open>
  C1.  The close button lacks that check.  Alice's ticket is closed by the command at
  time 100; a second command at 150 is refused; a press of the ticket's close button at
  200 sets \<open>closed_at\<close> to 200, edits the announcement and notifies the owner again.
\<close>

theorem close_button_overwrites_closed_at:
  "run example_config
     [(example_world, 50, Press TicketView alice),
      (example_world, 100, CloseCommand bob (generate_ticket_id 7 50))] init_database =
     \<lparr>tickets = [alice_ticket\<lparr>status := ''closed'', closed_at := Some 100\<rparr>],
      ticket_messages = []\<rparr> \<and>
   close_ticket_command example_config example_world 150 bob (generate_ticket_id 7 50)
       \<lparr>tickets = [alice_ticket\<lparr>status := ''closed'', closed_at := Some 100\<rparr>],
        ticket_messages = []\<rparr> =
     (\<lparr>tickets = [alice_ticket\<lparr>status := ''closed'', closed_at := Some 100\<rparr>],
       ticket_messages = []\<rparr>, [Respond TicketAlreadyClosed], None) \<and>
   press example_config example_world 200 (TicketCloseView (generate_ticket_id 7 50)) bob
       \<lparr>tickets = [alice_ticket\<lparr>status := ''closed'', closed_at := Some 100\<rparr>],
        ticket_messages = []\<rparr> =
     (\<lparr>tickets = [alice_ticket\<lparr>status := ''closed'', closed_at := Some 200\<rparr>],
       ticket_messages = []\<rparr>,
      [EditMessage (ClosedAnnouncement (generate_ticket_id 7 50) ''<@8>'' 200),
       UserSend 7 (TicketClosedDM (generate_ticket_id 7 50))], None)"
proof -
  have created: "fst (handle_ticket_creation example_config example_world 50 alice init_database) =
      \<lparr>tickets = [alice_ticket], ticket_messages = []\<rparr>"
    by (simp add: example_creation)
  have first_close: "fst (close_ticket_command example_config example_world 100 bob
        (generate_ticket_id 7 50) \<lparr>tickets = [alice_ticket], ticket_messages = []\<rparr>) =
      \<lparr>tickets = [alice_ticket\<lparr>status := ''closed'', closed_at := Some 100\<rparr>],
        ticket_messages = []\<rparr>"
    by (simp add: close_ticket_command_fst get_ticket_def close_ticket_def close_row_def
        holds_staff_role_def alice_ticket_def bob_def example_config_def)
  have second_close: "close_ticket_command example_config example_world 150 bob
        (generate_ticket_id 7 50)
        \<lparr>tickets = [alice_ticket\<lparr>status := ''closed'', closed_at := Some 100\<rparr>],
          ticket_messages = []\<rparr> =
      (\<lparr>tickets = [alice_ticket\<lparr>status := ''closed'', closed_at := Some 100\<rparr>],
         ticket_messages = []\<rparr>, [Respond TicketAlreadyClosed], None)"
    by (simp add: close_ticket_command_def get_ticket_def role_ids_def perform_def
        alice_ticket_def bob_def example_config_def example_world_def)
  have button: "close_ticket_button example_config example_world 200 (generate_ticket_id 7 50) bob
        \<lparr>tickets = [alice_ticket\<lparr>status := ''closed'', closed_at := Some 100\<rparr>],
          ticket_messages = []\<rparr> =
      (\<lparr>tickets = [alice_ticket\<lparr>status := ''closed'', closed_at := Some 200\<rparr>],
         ticket_messages = []\<rparr>,
       [EditMessage (ClosedAnnouncement (generate_ticket_id 7 50) ''<@8>'' 200),
        UserSend 7 (TicketClosedDM (generate_ticket_id 7 50))], None)"
    by (simp add: close_ticket_button_def get_ticket_def close_ticket_def close_row_def
        role_ids_def Let_def alice_ticket_def bob_def example_config_def example_world_def)
  from created first_close second_close button show ?thesis by simp
qed

end
